theory Spec2Isabelle
  imports Main
begin

section \<open>Data model\<close>

text \<open>
  A shallow embedding of the coordination layer of euporie's terminal application:
  \<^verbatim>\<open>EuporieApp\<close> (\<^verbatim>\<open>src/euporie/core/app.py\<close>) and its subclass \<^verbatim>\<open>TuiApp\<close>
  (\<^verbatim>\<open>src/euporie/app/tui.py\<close>). The application object is a record that every
  method takes and returns; a Python exception is the left summand of the result and
  carries the state at the moment it was raised, since Python does not undo the
  assignments made before a \<^verbatim>\<open>raise\<close> and the source has \<^verbatim>\<open>try ... except\<close> blocks
  that continue from that state.
\<close>

datatype error =
  ValueError | IndexError | KeyError | ZeroDivisionError | ClassNotFound | AttributeError

type_synonym path = string

type_synonym tab_class = nat

text \<open>
  A tab is an object with an identity; \<^verbatim>\<open>getattr(tab, "path", "")\<close> reads its path, which
  is absent for tabs that show no file.
\<close>

datatype tab = Tab (tab_ident: nat) (tab_kind: tab_class) (tab_path: "path option")

text \<open>
  Callbacks are closures in the source; here they are data. \<open>FinalCb\<close> is \<^verbatim>\<open>final_cb\<close>
  of \<^verbatim>\<open>TuiApp.exit\<close>, \<open>ChainCb tab_to_close cleanup_tab cb\<close> is the \<^verbatim>\<open>inner\<close> returned by
  \<^verbatim>\<open>create_cb(close_tab, cleanup_tab, cb)\<close>, and \<open>CleanupCb tab\<close> is
  \<^verbatim>\<open>partial(self.cleanup_closed_tab, tab)\<close> of \<^verbatim>\<open>close_tab\<close>.
\<close>

datatype cb = FinalCb | ChainCb tab tab cb | CleanupCb tab

text \<open>
  What can hold focus: a tab's container, a button of a dialog float (the float's
  identity and the button's position), or any other control of the layout.
\<close>

datatype element = TabElement tab | ButtonElement nat nat | ControlElement nat

text \<open>
  The layout is prompt_toolkit's. The model keeps what the code reads and writes:
  the focused element, the elements that \<^verbatim>\<open>find_all_controls()\<close> yields, and whether
  an element accepts focus at the moment (\<^verbatim>\<open>is_focusable()\<close> of a control, a focusable
  window inside a container).
\<close>

record layout =
  current_control :: element
  controls :: "element list"
  focusable :: "element \<Rightarrow> bool"

text \<open>Calls to collaborators whose only trace in the model is that they happened.\<close>

datatype effect =
    TabCloseRequested tab
  | ReallyClose
  | SendAll
  | NewLayout
  | RequestAbsoluteCursorPosition
  | Invalidate
  | LogCritical

datatype task = AwaitTerminalFeedback | PollTerminalColors

datatype ColorDepth = DEPTH_1_BIT | DEPTH_4_BIT | DEPTH_8_BIT | DEPTH_24_BIT

datatype style_transformation =
    DummyStyleTransformation
  | SetDefaultColorStyleTransformation string string
  | SwapLightAndDarkStyleTransformation
  | ConditionalStyleTransformation style_transformation bool
  | MergedStyleTransformation "style_transformation list"

type_synonym 'v dict = "(string \<times> 'v) list"

text \<open>
  The palette: \<^verbatim>\<open>ColorPalette.colors\<close>, each name with its colour and the base name
  that \<^verbatim>\<open>add_color\<close> was given.
\<close>

type_synonym palette = "(string \<times> string) dict"

datatype style =
    DummyStyle
  | PygmentsStyle string
  | MIME_STYLE
  | MARKDOWN_STYLE
  | LOG_STYLE
  | IPYWIDGET_STYLE
  | BuiltStyle palette
  | MergedStyle "style list"

record config =
  files :: "string list"
  color_scheme :: string
  syntax_theme :: string
  color_depth :: "nat option"
  custom_foreground_color :: string
  custom_background_color :: string

datatype handler = UpdateStyle

datatype clipboard = PyperclipClipboard | InMemoryClipboard

record term_info =
  colors_value :: "string dict"
  depth_of_color_value :: ColorDepth
  colors_event :: "handler list"
  background_color_event :: "handler list"
  foreground_color_event :: "handler list"

record app =
  tabs :: "tab list"
  tab_idx :: int
  render_counter :: nat
  layout :: layout
  dialogs :: "nat list"
  has_dialog :: bool
  next_ident :: nat
  effects :: "effect list"
  pending :: "(tab \<times> cb) list"
  config :: config
  term_info :: term_info
  style_transformation :: style_transformation
  color_palette :: palette
  renderer_style :: style
  is_running :: bool
  waiting_for_cpr_futures :: nat
  background_tasks :: "task list"
  key_bindings_loaded :: bool
  app_color_depth :: ColorDepth
  input_closed :: bool
  using_vt100 :: bool
  clipboard :: clipboard

type_synonym 'a result = "(error \<times> app) + 'a"

text \<open>
  The collaborators that are not part of the application object: how a tab answers a
  close request, the path parser, the tab factory, the baseline colours, the known
  syntax themes, the layout that \<^verbatim>\<open>load_container\<close> yields, and whether pyperclip finds
  a system clipboard (\<^verbatim>\<open>determine_clipboard()[0]\<close>).
\<close>

record env =
  closes :: "tab \<Rightarrow> bool"
  parse_path :: "string \<Rightarrow> path"
  get_file_tab :: "string \<Rightarrow> tab_class option"
  DEFAULT_COLORS :: "string dict"
  known_style :: "string \<Rightarrow> bool"
  load_container :: "app \<Rightarrow> layout"
  determine_clipboard :: bool

section \<open>The layout engine's contract\<close>

fun index_from :: "'a \<Rightarrow> nat \<Rightarrow> 'a list \<Rightarrow> nat option" where
  "index_from x i [] = None"
| "index_from x i (y # ys) = (if y = x then Some i else index_from x (Suc i) ys)"

text \<open>\<^verbatim>\<open>list.index(x)\<close>: the position of the first equal entry, \<open>None\<close> for ValueError.\<close>

definition index :: "'a list \<Rightarrow> 'a \<Rightarrow> nat option" where
  "index xs x = index_from x 0 xs"

definition has_focus :: "layout \<Rightarrow> tab \<Rightarrow> bool" where
  "has_focus L t = (current_control L = TabElement t)"

definition find_all_controls :: "layout \<Rightarrow> element list" where
  "find_all_controls L = controls L"

text \<open>
  \<^verbatim>\<open>Layout.focus(value)\<close> for a control: ValueError when the control is not in the
  layout, ValueError when it is not focusable.
\<close>

definition focus_control :: "layout \<Rightarrow> element \<Rightarrow> error + layout" where
  "focus_control L e =
     (if e \<notin> set (find_all_controls L) then Inl ValueError
      else if \<not> focusable L e then Inl ValueError
      else Inr (L\<lparr>current_control := e\<rparr>))"

text \<open>
  \<^verbatim>\<open>Layout.focus(value)\<close> for a container (a tab, a widget): the focus goes to a
  focusable window inside it, ValueError when it has none.
\<close>

definition focus :: "layout \<Rightarrow> element \<Rightarrow> error + layout" where
  "focus L e =
     (if \<not> focusable L e then Inl ValueError
      else Inr (L\<lparr>current_control := e\<rparr>))"

text \<open>
  \<^verbatim>\<open>Layout.focus_next()\<close>: the element after the current one among the focusable
  elements of the layout, the first of them when the current one is not among them,
  nothing when there is none.
\<close>

definition focus_next :: "layout \<Rightarrow> error + layout" where
  "focus_next L =
     (let windows = filter (focusable L) (find_all_controls L) in
      if length windows > 0 then
        focus L (windows ! (case index windows (current_control L) of
                              None \<Rightarrow> 0
                            | Some i \<Rightarrow> (i + 1) mod length windows))
      else Inr L)"

definition layout_focus :: "element \<Rightarrow> app \<Rightarrow> app result" where
  "layout_focus e s =
     (case focus (layout s) e of
        Inl err \<Rightarrow> Inl (err, s)
      | Inr L \<Rightarrow> Inr (s\<lparr>layout := L\<rparr>))"

definition layout_focus_control :: "element \<Rightarrow> app \<Rightarrow> app result" where
  "layout_focus_control e s =
     (case focus_control (layout s) e of
        Inl err \<Rightarrow> Inl (err, s)
      | Inr L \<Rightarrow> Inr (s\<lparr>layout := L\<rparr>))"

definition layout_focus_next :: "app \<Rightarrow> app result" where
  "layout_focus_next s =
     (case focus_next (layout s) of
        Inl err \<Rightarrow> Inl (err, s)
      | Inr L \<Rightarrow> Inr (s\<lparr>layout := L\<rparr>))"

section \<open>The tab collection\<close>

fun focused_index :: "(tab \<Rightarrow> bool) \<Rightarrow> nat \<Rightarrow> tab list \<Rightarrow> nat option" where
  "focused_index p i [] = None"
| "focused_index p i (t # ts) = (if p t then Some i else focused_index p (Suc i) ts)"

text \<open>
  The property \<^verbatim>\<open>EuporieApp.tab\<close>. Reading it writes \<^verbatim>\<open>_tab_idx\<close>: first the position
  of the focused tab, if the application has rendered and a tab has focus, then the
  clamp into the list.
\<close>

definition tab :: "app \<Rightarrow> tab option \<times> app" where
  "tab s =
     (if tabs s \<noteq> [] then
        let s1 = (case focused_index
                         (\<lambda>t. render_counter s > 0 \<and> has_focus (layout s) t) 0 (tabs s) of
                    Some i \<Rightarrow> s\<lparr>tab_idx := int i\<rparr>
                  | None \<Rightarrow> s);
            s2 = s1\<lparr>tab_idx := max 0 (min (tab_idx s1) (int (length (tabs s1)) - 1))\<rparr>
        in (Some (tabs s2 ! nat (tab_idx s2)), s2)
      else (None, s))"

text \<open>
  The setter of \<^verbatim>\<open>tab_idx\<close>: \<^verbatim>\<open>value % len(self.tabs)\<close> raises ZeroDivisionError on an
  empty list.
\<close>

definition set_tab_idx :: "int \<Rightarrow> app \<Rightarrow> app result" where
  "set_tab_idx v s =
     (if length (tabs s) = 0 then Inl (ZeroDivisionError, s)
      else
        let s1 = s\<lparr>tab_idx := v mod int (length (tabs s))\<rparr>
        in layout_focus (TabElement (tabs s1 ! nat (tab_idx s1))) s1)"

definition focus_tab :: "tab \<Rightarrow> app \<Rightarrow> app result" where
  "focus_tab t s =
     (case index (tabs s) t of
        None \<Rightarrow> Inl (ValueError, s)
      | Some i \<Rightarrow> set_tab_idx (int i) s)"

text \<open>The commands \<^verbatim>\<open>next_tab\<close> and \<^verbatim>\<open>previous_tab\<close>: \<^verbatim>\<open>tab_idx += 1\<close>, \<^verbatim>\<open>tab_idx -= 1\<close>.\<close>

definition next_tab :: "app \<Rightarrow> app result" where
  "next_tab s = set_tab_idx (tab_idx s + 1) s"

definition previous_tab :: "app \<Rightarrow> app result" where
  "previous_tab s = set_tab_idx (tab_idx s - 1) s"

text \<open>
  \<^verbatim>\<open>cleanup_closed_tab\<close>: \<^verbatim>\<open>list.remove\<close> raises ValueError for a tab that is not in
  the list; the property \<^verbatim>\<open>self.tab\<close> is read twice when a tab remains; the
  ValueError of \<^verbatim>\<open>focus_next\<close> is swallowed, that of \<^verbatim>\<open>focus\<close> is not.
\<close>

definition cleanup_closed_tab :: "tab \<Rightarrow> app \<Rightarrow> app result" where
  "cleanup_closed_tab t s =
     (if t \<notin> set (tabs s) then Inl (ValueError, s)
      else
        let s1 = s\<lparr>tabs := remove1 t (tabs s)\<rparr> in
        case tab s1 of
          (Some _, s2) \<Rightarrow>
            (case tab s2 of
               (Some t2, s3) \<Rightarrow> layout_focus (TabElement t2) s3
             | (None, s3) \<Rightarrow> Inl (ValueError, s3))
        | (None, s2) \<Rightarrow>
            (case layout_focus_next s2 of
               Inl (ValueError, s3) \<Rightarrow> Inr s3
             | Inl (err, s3) \<Rightarrow> Inl (err, s3)
             | Inr s3 \<Rightarrow> Inr s3))"

text \<open>
  \<^verbatim>\<open>super().exit\<close>, prompt_toolkit's \<^verbatim>\<open>Application.exit\<close>: the model records the call.
\<close>

definition really_close :: "app \<Rightarrow> app result" where
  "really_close s = Inr (s\<lparr>effects := effects s @ [ReallyClose]\<rparr>)"

text \<open>
  Running a callback. In \<open>ChainCb\<close> the request to close \<^verbatim>\<open>close_tab\<close> is \<open>Tab.close\<close>
  below, written out so that the recursion is on the callback.
\<close>

fun run_cb :: "env \<Rightarrow> cb \<Rightarrow> app \<Rightarrow> app result" where
  "run_cb env FinalCb s =
     (case tabs s of
        [] \<Rightarrow> Inl (IndexError, s)
      | t # _ \<Rightarrow>
          (case cleanup_closed_tab t s of
             Inl e \<Rightarrow> Inl e
           | Inr s1 \<Rightarrow> really_close s1))"
| "run_cb env (CleanupCb t) s = cleanup_closed_tab t s"
| "run_cb env (ChainCb tab_to_close cleanup_tab cb) s =
     (case cleanup_closed_tab cleanup_tab s of
        Inl e \<Rightarrow> Inl e
      | Inr s1 \<Rightarrow>
          (let s2 = s1\<lparr>effects := effects s1 @ [TabCloseRequested tab_to_close]\<rparr> in
           if closes env tab_to_close then run_cb env cb s2
           else Inr (s2\<lparr>pending := pending s2 @ [(tab_to_close, cb)]\<rparr>)))"

text \<open>
  Modelled from the spec: \<^verbatim>\<open>Tab.close(cb)\<close> (\<^verbatim>\<open>euporie.tabs.base\<close> is not under
  \<^verbatim>\<open>src/\<close>). The tab "invokes callback only on successful close; never invokes it if the
  user cancels". A tab that does not complete keeps the callback; the request itself
  is recorded.
\<close>

definition tab_close :: "env \<Rightarrow> tab \<Rightarrow> cb \<Rightarrow> app \<Rightarrow> app result" where
  "tab_close env t cb s =
     (let s1 = s\<lparr>effects := effects s @ [TabCloseRequested t]\<rparr> in
      if closes env t then run_cb env cb s1
      else Inr (s1\<lparr>pending := pending s1 @ [(t, cb)]\<rparr>))"

definition close_tab :: "env \<Rightarrow> tab option \<Rightarrow> app \<Rightarrow> app result" where
  "close_tab env t s =
     (let (t1, s1) = (case t of None \<Rightarrow> tab s | Some x \<Rightarrow> (Some x, s)) in
      case t1 of
        None \<Rightarrow> Inr s1
      | Some x \<Rightarrow> tab_close env x (CleanupCb x) s1)"

text \<open>
  The loop of \<^verbatim>\<open>TuiApp.exit\<close> over \<^verbatim>\<open>zip(self.tabs, self.tabs[1:])\<close>, each step wrapping
  the callback built so far.
\<close>

fun chain :: "cb \<Rightarrow> (tab \<times> tab) list \<Rightarrow> cb" where
  "chain cb [] = cb"
| "chain cb ((tab_to_close, cleanup_tab) # ps) = chain (ChainCb tab_to_close cleanup_tab cb) ps"

definition exit :: "env \<Rightarrow> app \<Rightarrow> app result" where
  "exit env s =
     (if tabs s \<noteq> [] then
        let cb = chain FinalCb (zip (tabs s) (drop 1 (tabs s)))
        in tab_close env (last (tabs s)) cb s
      else really_close s)"

text \<open>
  The application as \<^verbatim>\<open>__init__\<close> leaves it, given what it receives from outside: the
  configuration, the terminal information, the layout, the input and the clipboard.
\<close>

definition new_app ::
  "config \<Rightarrow> term_info \<Rightarrow> layout \<Rightarrow> bool \<Rightarrow> bool \<Rightarrow> clipboard \<Rightarrow> app" where
  "new_app cfg ti lay closed vt100 clip =
     \<lparr>tabs = [], tab_idx = 0, render_counter = 0, layout = lay, dialogs = [],
      has_dialog = False, next_ident = 0, effects = [], pending = [], config = cfg,
      term_info = ti, style_transformation = DummyStyleTransformation, color_palette = [],
      renderer_style = DummyStyle, is_running = False, waiting_for_cpr_futures = 0,
      background_tasks = [], key_bindings_loaded = False,
      app_color_depth = depth_of_color_value ti, input_closed = closed, using_vt100 = vt100,
      clipboard = clip\<rparr>"

section \<open>Opening files\<close>

text \<open>
  Modelled from the spec: the constructor \<^verbatim>\<open>tab_class(self, ppath)\<close> (\<^verbatim>\<open>euporie.core.tabs\<close>
  is not under \<^verbatim>\<open>src/\<close>). A tab is "created by a factory keyed on file-path/type" and
  has "a stable identity usable for path/type matching in already-open detection": a
  new object of the class, holding the path it was made for.
\<close>

definition new_tab :: "tab_class \<Rightarrow> path \<Rightarrow> app \<Rightarrow> tab \<times> app" where
  "new_tab c ppath s = (Tab (next_ident s) c (Some ppath), s\<lparr>next_ident := Suc (next_ident s)\<rparr>)"

text \<open>
  Modelled from the spec: \<^verbatim>\<open>Tab.focus()\<close> (\<^verbatim>\<open>euporie.core.tabs\<close> is not under \<^verbatim>\<open>src/\<close>),
  the collection's \<^verbatim>\<open>focus(tab)\<close>, which is \<^verbatim>\<open>focus_tab\<close> of the application.
\<close>

definition tab_focus :: "tab \<Rightarrow> app \<Rightarrow> app result" where
  "tab_focus t s = focus_tab t s"

text \<open>
  \<^verbatim>\<open>open_file\<close>. The \<^verbatim>\<open>for ... else\<close> runs its \<^verbatim>\<open>else\<close> only when no tab has the parsed
  path; a tab without a path never compares equal to one. Log lines are not modelled.
\<close>

definition open_file :: "env \<Rightarrow> string \<Rightarrow> app \<Rightarrow> app result" where
  "open_file env p s =
     (let ppath = parse_path env p in
      case find (\<lambda>t. Some ppath = tab_path t) (tabs s) of
        Some _ \<Rightarrow> Inr s
      | None \<Rightarrow>
          (case get_file_tab env p of
             None \<Rightarrow> Inr s
           | Some c \<Rightarrow>
               (let (t, s1) = new_tab c ppath s;
                    s2 = s1\<lparr>tabs := tabs s1 @ [t]\<rparr>
                in tab_focus t s2)))"

fun open_each :: "env \<Rightarrow> string list \<Rightarrow> app \<Rightarrow> app result" where
  "open_each env [] s = Inr s"
| "open_each env (f # fs) s =
     (case open_file env f s of
        Inl e \<Rightarrow> Inl e
      | Inr s1 \<Rightarrow> open_each env fs s1)"

definition open_files :: "env \<Rightarrow> app \<Rightarrow> app result" where
  "open_files env s = open_each env (files (config s)) s"

section \<open>Dialogs\<close>

text \<open>
  Modelled from the spec: \<^verbatim>\<open>add_float\<close> (the base class that \<^verbatim>\<open>tui.py\<close> imports,
  \<^verbatim>\<open>euporie.app.base\<close>, is not under \<^verbatim>\<open>src/\<close>): "push the dialog onto the owned overlay
  list (top of stack)". The top of the stack is the end of the list.
\<close>

definition add_float :: "nat \<Rightarrow> app \<Rightarrow> app" where
  "add_float f s = s\<lparr>dialogs := dialogs s @ [f]\<rparr>"

text \<open>
  Modelled from the spec: \<^verbatim>\<open>remove_float\<close> (\<^verbatim>\<open>euporie.app.base\<close> is not under \<^verbatim>\<open>src/\<close>):
  "pop the dialog from the overlay list".
\<close>

definition remove_float :: "nat \<Rightarrow> app \<Rightarrow> app" where
  "remove_float f s = s\<lparr>dialogs := remove1 f (dialogs s)\<rparr>"

text \<open>
  The handler \<^verbatim>\<open>inner\<close> that \<^verbatim>\<open>_make_handler(cb)\<close> returns inside \<^verbatim>\<open>TuiApp.dialog\<close>; its
  closure holds \<^verbatim>\<open>focused\<close>, \<^verbatim>\<open>dialog_float\<close> and \<^verbatim>\<open>cb\<close>. Escape runs it with no
  callback, a button with the button's.
\<close>

definition inner :: "element \<Rightarrow> nat \<Rightarrow> (app \<Rightarrow> app result) option \<Rightarrow> app \<Rightarrow> app result" where
  "inner focused dialog_float cb s =
     (let s1 = remove_float dialog_float s;
          s2 = s1\<lparr>has_dialog := False\<rparr>
      in case (if focused \<in> set (find_all_controls (layout s2)) then
                 (case layout_focus_control focused s2 of
                    Inl (ValueError, s3) \<Rightarrow> Inr s3
                  | Inl (err, s3) \<Rightarrow> Inl (err, s3)
                  | Inr s3 \<Rightarrow> Inr s3)
               else Inr s2) of
           Inl e \<Rightarrow> Inl e
         | Inr s3 \<Rightarrow> (case cb of None \<Rightarrow> Inr s3 | Some f \<Rightarrow> f s3))"

text \<open>
  \<^verbatim>\<open>TuiApp.dialog\<close>. The float is a new object; \<^verbatim>\<open>button_widgets[0]\<close> raises IndexError
  when there is no button and no \<^verbatim>\<open>to_focus\<close>. The key bindings and the widgets it
  builds change nothing else; they hold the handlers above, which for a dialog shown
  in \<open>s\<close> are \<open>inner (current_control (layout s)) (next_ident s) cb\<close>, with \<open>cb\<close> the
  button's callback and \<open>None\<close> for Escape.
\<close>

definition dialog ::
  "string \<Rightarrow> element \<Rightarrow> (string \<times> (app \<Rightarrow> app result) option) list \<Rightarrow> element option \<Rightarrow>
   app \<Rightarrow> app result" where
  "dialog title body buttons to_focus s =
     (if has_dialog s then Inr s
      else
        let dialog_float = next_ident s;
            s1 = add_float dialog_float (s\<lparr>next_ident := Suc (next_ident s)\<rparr>);
            s2 = s1\<lparr>has_dialog := True\<rparr>
        in case (case to_focus of
                   None \<Rightarrow> (if buttons = [] then Inl (IndexError, s2)
                             else Inr (ButtonElement dialog_float 0))
                 | Some e \<Rightarrow> Inr e) of
             Inl e \<Rightarrow> Inl e
           | Inr e \<Rightarrow>
               (case layout_focus e s2 of
                  Inl x \<Rightarrow> Inl x
                | Inr s3 \<Rightarrow> Inr (s3\<lparr>effects := effects s3 @ [Invalidate]\<rparr>)))"

section \<open>Styles\<close>

fun dict_set :: "string \<Rightarrow> 'v \<Rightarrow> 'v dict \<Rightarrow> 'v dict" where
  "dict_set k v [] = [(k, v)]"
| "dict_set k v ((k', v') # d) = (if k' = k then (k, v) # d else (k', v') # dict_set k v d)"

text \<open>\<^verbatim>\<open>{**a, **b}\<close>: the entries of \<open>a\<close>, each overwritten or followed by those of \<open>b\<close>.\<close>

definition dict_merge :: "'v dict \<Rightarrow> 'v dict \<Rightarrow> 'v dict" where
  "dict_merge a b = fold (\<lambda>(k, v). dict_set k v) b a"

definition theme_colors :: "app \<Rightarrow> (string dict) dict" where
  "theme_colors s =
     [(''light'', [(''fg'', ''#202020''), (''bg'', ''#F0F0F0'')]),
      (''dark'', [(''fg'', ''#F0F0F0''), (''bg'', ''#202020'')]),
      (''white'', [(''fg'', ''#000000''), (''bg'', ''#FFFFFF'')]),
      (''black'', [(''fg'', ''#FFFFFF''), (''bg'', ''#000000'')]),
      (''default'', colors_value (term_info s)),
      (''custom'', [(''fg'', custom_foreground_color (config s)),
                    (''bg'', custom_background_color (config s))])]"

text \<open>
  Modelled from the spec: \<^verbatim>\<open>ColorPalette.add_color\<close> (\<^verbatim>\<open>euporie.core.style\<close> is not under
  \<^verbatim>\<open>src/\<close>): the "palette maps semantic names to concrete colors".
\<close>

definition add_color :: "string \<Rightarrow> string \<Rightarrow> string \<Rightarrow> palette \<Rightarrow> palette" where
  "add_color name color base pal = dict_set name (color, base) pal"

text \<open>
  The loop over \<^verbatim>\<open>base_colors.items()\<close>; \<^verbatim>\<open>color or theme_colors["default"][name]\<close> reads
  the terminal's colours only for an empty colour, and raises KeyError (the left
  summand, with the palette so far) when they lack the name.
\<close>

fun add_colors :: "string dict \<Rightarrow> string dict \<Rightarrow> palette \<Rightarrow> palette + palette" where
  "add_colors dflt [] pal = Inr pal"
| "add_colors dflt ((name, color) # rest) pal =
     (case (if color \<noteq> [] then Some color else map_of dflt name) of
        None \<Rightarrow> Inl pal
      | Some c \<Rightarrow>
          add_colors dflt rest
            (add_color name c (if name \<in> {''fg'', ''bg''} then ''default'' else name) pal))"

definition base_colors :: "env \<Rightarrow> app \<Rightarrow> string dict" where
  "base_colors env s =
     dict_merge (DEFAULT_COLORS env)
       (case map_of (theme_colors s) (color_scheme (config s)) of
          Some d \<Rightarrow> d
        | None \<Rightarrow> colors_value (term_info s))"

text \<open>
  \<^verbatim>\<open>create_merged_style\<close>. \<^verbatim>\<open>build_style\<close> and the style sheets are constructors; the
  syntax theme is looked up last and pygments raises for an unknown name.
\<close>

definition create_merged_style :: "env \<Rightarrow> app \<Rightarrow> (style \<times> app) result" where
  "create_merged_style env s =
     (let bc = base_colors env s in
      case add_colors (colors_value (term_info s)) bc [] of
        Inl pal \<Rightarrow> Inl (KeyError, s\<lparr>color_palette := pal\<rparr>)
      | Inr pal \<Rightarrow>
          (case map_of pal ''ansiblue'' of
             None \<Rightarrow> Inl (KeyError, s\<lparr>color_palette := pal\<rparr>)
           | Some hl \<Rightarrow>
               (let s1 = s\<lparr>color_palette := dict_set ''hl'' hl pal\<rparr>;
                    app_style = BuiltStyle (color_palette s1)
                in case map_of bc ''fg'' of
                     None \<Rightarrow> Inl (KeyError, s1)
                   | Some fg \<Rightarrow>
                       (case map_of bc ''bg'' of
                          None \<Rightarrow> Inl (KeyError, s1)
                        | Some bg \<Rightarrow>
                            (let s2 = s1\<lparr>style_transformation :=
                                   MergedStyleTransformation
                                     [ConditionalStyleTransformation
                                        (SetDefaultColorStyleTransformation fg bg)
                                        (color_scheme (config s1) \<noteq> ''default''),
                                      ConditionalStyleTransformation
                                        SwapLightAndDarkStyleTransformation
                                        (color_scheme (config s1) = ''inverse'')]\<rparr>
                             in if \<not> known_style env (syntax_theme (config s2))
                                then Inl (ClassNotFound, s2)
                                else Inr (MergedStyle
                                            [PygmentsStyle (syntax_theme (config s2)),
                                             MIME_STYLE, MARKDOWN_STYLE, LOG_STYLE,
                                             IPYWIDGET_STYLE, app_style], s2))))))"

definition update_style :: "env \<Rightarrow> string option \<Rightarrow> string option \<Rightarrow> app \<Rightarrow> app result" where
  "update_style env pygments_style scheme s =
     (let s1 = (case pygments_style of
                  None \<Rightarrow> s
                | Some p \<Rightarrow> s\<lparr>config := (config s)\<lparr>syntax_theme := p\<rparr>\<rparr>);
          s2 = (case scheme of
                  None \<Rightarrow> s1
                | Some c \<Rightarrow> s1\<lparr>config := (config s1)\<lparr>color_scheme := c\<rparr>\<rparr>)
      in case create_merged_style env s2 of
           Inl e \<Rightarrow> Inl e
         | Inr (st, s3) \<Rightarrow> Inr (s3\<lparr>renderer_style := st\<rparr>))"

text \<open>
  What prompt_toolkit applies: a conditional transformation only when its filter holds,
  a merged one as its members in order.
\<close>

fun active :: "style_transformation \<Rightarrow> style_transformation list" where
  "active DummyStyleTransformation = []"
| "active (SetDefaultColorStyleTransformation fg bg) = [SetDefaultColorStyleTransformation fg bg]"
| "active SwapLightAndDarkStyleTransformation = [SwapLightAndDarkStyleTransformation]"
| "active (ConditionalStyleTransformation t b) = (if b then active t else [])"
| "active (MergedStyleTransformation ts) = concat (map active ts)"

section \<open>Start-up\<close>

definition COLOR_DEPTHS :: "nat \<Rightarrow> ColorDepth option" where
  "COLOR_DEPTHS n =
     (if n = 1 then Some DEPTH_1_BIT
      else if n = 4 then Some DEPTH_4_BIT
      else if n = 8 then Some DEPTH_8_BIT
      else if n = 24 then Some DEPTH_24_BIT
      else None)"

definition load_key_bindings :: "app \<Rightarrow> app" where
  "load_key_bindings s = s\<lparr>key_bindings_loaded := True\<rparr>"

text \<open>\<^verbatim>\<open>TuiApp.load_clipboard\<close>.\<close>

definition load_clipboard :: "env \<Rightarrow> app \<Rightarrow> app" where
  "load_clipboard env s =
     s\<lparr>clipboard := (if determine_clipboard env then PyperclipClipboard
                      else InMemoryClipboard)\<rparr>"

text \<open>
  \<^verbatim>\<open>post_load\<close>. The application is a \<^verbatim>\<open>TuiApp\<close>, so \<^verbatim>\<open>self.post_load()\<close> is the override
  in \<^verbatim>\<open>tui.py\<close>, which does not call the method it overrides: it loads the clipboard,
  focuses the current tab if there is one (reading the property \<^verbatim>\<open>self.tab\<close> twice), and
  with a vt100 input subscribes \<^verbatim>\<open>update_style\<close> to the two colour queries and schedules
  the polling task.
\<close>

definition post_load :: "env \<Rightarrow> app \<Rightarrow> app result" where
  "post_load env s =
     (let s1 = load_clipboard env s in
      case (case tab s1 of
              (Some _, s2) \<Rightarrow>
                (case tab s2 of
                   (Some t, s3) \<Rightarrow> tab_focus t s3
                 | (None, s3) \<Rightarrow> Inl (AttributeError, s3))
            | (None, s2) \<Rightarrow> Inr s2) of
        Inl e \<Rightarrow> Inl e
      | Inr s4 \<Rightarrow>
          if using_vt100 s4 then
            Inr (s4\<lparr>term_info :=
                      (term_info s4)\<lparr>background_color_event :=
                                         background_color_event (term_info s4) @ [UpdateStyle],
                                       foreground_color_event :=
                                         foreground_color_event (term_info s4) @ [UpdateStyle]\<rparr>,
                    background_tasks := background_tasks s4 @ [PollTerminalColors]\<rparr>)
          else Inr s4)"

text \<open>
  \<^verbatim>\<open>terminal_ready\<close> of \<^verbatim>\<open>pre_run\<close>. \<^verbatim>\<open>list.pop()\<close> raises IndexError on an empty list.
\<close>

definition terminal_ready :: "env \<Rightarrow> app \<Rightarrow> app result" where
  "terminal_ready env s =
     (let s1 = s\<lparr>layout := load_container env s, effects := effects s @ [NewLayout]\<rparr> in
      case open_files env s1 of
        Inl e \<Rightarrow> Inl e
      | Inr s2 \<Rightarrow>
          (case post_load env s2 of
             Inl e \<Rightarrow> Inl e
           | Inr s3 \<Rightarrow>
               (let s4 = s3\<lparr>is_running := True\<rparr> in
                if waiting_for_cpr_futures s4 = 0 then Inl (IndexError, s4)
                else Inr (s4\<lparr>waiting_for_cpr_futures := waiting_for_cpr_futures s4 - 1,
                              effects := effects s4 @ [RequestAbsoluteCursorPosition, Invalidate]\<rparr>))))"

text \<open>
  The background task \<^verbatim>\<open>await_terminal_feedback\<close>; the sleep is not modelled. On an
  exception it logs and calls \<^verbatim>\<open>self.exit(exception=exception)\<close>, which on a \<^verbatim>\<open>TuiApp\<close> is
  \<^verbatim>\<open>TuiApp.exit\<close>: the keyword argument is unused and a shutdown is requested.
\<close>

definition await_terminal_feedback :: "env \<Rightarrow> app \<Rightarrow> app result" where
  "await_terminal_feedback env s =
     (let s1 = (if using_vt100 s then s\<lparr>effects := effects s @ [SendAll]\<rparr> else s) in
      case terminal_ready env s1 of
        Inl (e, s2) \<Rightarrow> exit env (s2\<lparr>effects := effects s2 @ [LogCritical]\<rparr>)
      | Inr s2 \<Rightarrow> Inr s2)"

definition pre_run :: "env \<Rightarrow> app \<Rightarrow> app result" where
  "pre_run env s =
     (let s1 = load_key_bindings s;
          s2 = s1\<lparr>app_color_depth :=
                    (case (case color_depth (config s1) of
                             None \<Rightarrow> None
                           | Some n \<Rightarrow> COLOR_DEPTHS n) of
                       Some d \<Rightarrow> d
                     | None \<Rightarrow> depth_of_color_value (term_info s1))\<rparr>
      in case update_style env None None s2 of
           Inl e \<Rightarrow> Inl e
         | Inr s3 \<Rightarrow>
             (let s4 = s3\<lparr>term_info :=
                          (term_info s3)\<lparr>colors_event :=
                             colors_event (term_info s3) @ [UpdateStyle]\<rparr>\<rparr>;
                  s5 = s4\<lparr>is_running := False\<rparr>;
                  s6 = s5\<lparr>waiting_for_cpr_futures := waiting_for_cpr_futures s5 + 1\<rparr>
              in if input_closed s6 then terminal_ready env s6
                 else Inr (s6\<lparr>background_tasks :=
                                 background_tasks s6 @ [AwaitTerminalFeedback]\<rparr>)))"

text \<open>
  Modelled from the spec: the response callback of the terminal's colour query
  (\<^verbatim>\<open>euporie.core.terminal\<close> is not under \<^verbatim>\<open>src/\<close>). A reply "updates its TerminalQuery
  value and fires the change event", "synchronously invoking all current subscribers";
  the subscribers are those \<^verbatim>\<open>pre_run\<close> added with \<^verbatim>\<open>colors.event += self.update_style\<close>.
\<close>

fun fire :: "env \<Rightarrow> handler list \<Rightarrow> app \<Rightarrow> app result" where
  "fire env [] s = Inr s"
| "fire env (UpdateStyle # hs) s =
     (case update_style env None None s of
        Inl e \<Rightarrow> Inl e
      | Inr s1 \<Rightarrow> fire env hs s1)"

definition colors_response :: "env \<Rightarrow> string dict \<Rightarrow> app \<Rightarrow> app result" where
  "colors_response env v s =
     (let s1 = s\<lparr>term_info := (term_info s)\<lparr>colors_value := v\<rparr>\<rparr>
      in fire env (colors_event (term_info s1)) s1)"

section \<open>Sequences of operations\<close>

datatype operation =
    Append tab
  | OpenFile string
  | CloseTab "tab option"
  | CleanupClosedTab tab
  | FocusTab tab
  | NextTab
  | PreviousTab
  | Exit

fun apply_operation :: "env \<Rightarrow> operation \<Rightarrow> app \<Rightarrow> app result" where
  "apply_operation env (Append t) s = Inr (s\<lparr>tabs := tabs s @ [t]\<rparr>)"
| "apply_operation env (OpenFile p) s = open_file env p s"
| "apply_operation env (CloseTab t) s = close_tab env t s"
| "apply_operation env (CleanupClosedTab t) s = cleanup_closed_tab t s"
| "apply_operation env (FocusTab t) s = focus_tab t s"
| "apply_operation env NextTab s = next_tab s"
| "apply_operation env PreviousTab s = previous_tab s"
| "apply_operation env Exit s = exit env s"

fun run :: "env \<Rightarrow> operation list \<Rightarrow> app \<Rightarrow> app result" where
  "run env [] s = Inr s"
| "run env (x # xs) s =
     (case apply_operation env x s of
        Inl e \<Rightarrow> Inl e
      | Inr s1 \<Rightarrow> run env xs s1)"

section \<open>Auxiliary definitions\<close>

text \<open>
  The same application with further callbacks held by tabs that were asked to close
  earlier, and a state transformer applied to either outcome of a call.
\<close>

definition with_pending :: "(tab \<times> cb) list \<Rightarrow> app \<Rightarrow> app" where
  "with_pending p s = s\<lparr>pending := p @ pending s\<rparr>"

definition map_result :: "(app \<Rightarrow> app) \<Rightarrow> app result \<Rightarrow> app result" where
  "map_result f r = (case r of Inl (e, s) \<Rightarrow> Inl (e, f s) | Inr s \<Rightarrow> Inr (f s))"

text \<open>The application as a call leaves it, whether it returned or raised.\<close>

definition state_of :: "app result \<Rightarrow> app" where
  "state_of r = (case r of Inl (e, s) \<Rightarrow> s | Inr s \<Rightarrow> s)"

subsection \<open>Concrete applications\<close>

definition tab_a :: tab where
  "tab_a = Tab 0 0 (Some ''a.ipynb'')"

definition tab_b :: tab where
  "tab_b = Tab 1 0 (Some ''b.ipynb'')"

definition tab_c :: tab where
  "tab_c = Tab 2 0 (Some ''c.ipynb'')"

definition tab_d :: tab where
  "tab_d = Tab 3 0 (Some ''d.ipynb'')"

definition logo :: element where
  "logo = ControlElement 0"

definition example_layout :: layout where
  "example_layout = \<lparr>current_control = logo, controls = [logo], focusable = (\<lambda>e. True)\<rparr>"

definition example_config :: config where
  "example_config =
     \<lparr>files = [''a.ipynb''], color_scheme = ''inverse'', syntax_theme = ''default'',
      color_depth = None, custom_foreground_color = [], custom_background_color = []\<rparr>"

definition example_term_info :: term_info where
  "example_term_info =
     \<lparr>colors_value = [(''fg'', ''#FFFFFF''), (''bg'', ''#000000'')],
      depth_of_color_value = DEPTH_24_BIT, colors_event = [], background_color_event = [],
      foreground_color_event = []\<rparr>"

text \<open>An environment in which every tab but \<open>tab_c\<close> completes its close.\<close>

definition example_env :: env where
  "example_env =
     \<lparr>closes = (\<lambda>t. t \<noteq> tab_c), parse_path = (\<lambda>p. p), get_file_tab = (\<lambda>p. Some 0),
      DEFAULT_COLORS = [(''ansiblue'', ''ansiblue'')], known_style = (\<lambda>n. True),
      load_container = (\<lambda>s. example_layout), determine_clipboard = False\<rparr>"

definition empty_app :: app where
  "empty_app =
     new_app example_config example_term_info example_layout True False InMemoryClipboard"

definition abc_app :: app where
  "abc_app = empty_app\<lparr>tabs := [tab_a, tab_b, tab_c], next_ident := 3\<rparr>"

text \<open>\<open>empty_app\<close> after opening \<^verbatim>\<open>a.ipynb\<close>.\<close>

definition opened_app :: app where
  "opened_app =
     empty_app\<lparr>tabs := [tab_a], next_ident := 1,
       layout := example_layout\<lparr>current_control := TabElement tab_a\<rparr>\<rparr>"

text \<open>
  \<open>empty_app\<close> after opening two files, moving to the next tab and closing the current
  one.
\<close>

definition after_ops :: app where
  "after_ops =
     empty_app\<lparr>tabs := [tab_b], next_ident := 2,
       layout := example_layout\<lparr>current_control := TabElement tab_b\<rparr>,
       effects := [TabCloseRequested tab_a]\<rparr>"

text \<open>\<open>abc_app\<close> after a shutdown request that halted at \<open>tab_c\<close>.\<close>

definition halted_app :: app where
  "halted_app =
     abc_app\<lparr>effects := [TabCloseRequested tab_c],
       pending := [(tab_c, ChainCb tab_b tab_c (ChainCb tab_a tab_b FinalCb))]\<rparr>"

text \<open>\<open>empty_app\<close> showing the About dialog, the focus on its only button.\<close>

definition about_app :: app where
  "about_app =
     empty_app\<lparr>dialogs := [0], has_dialog := True, next_ident := 1,
       layout := example_layout\<lparr>current_control := ButtonElement 0 0\<rparr>,
       effects := [Invalidate]\<rparr>"

text \<open>
  The same after a tab was opened while the dialog is up: the logo, which had the focus
  when the dialog was shown, is still in the layout, and its control is focusable only
  while there is no tab (\<^verbatim>\<open>focusable=~have_tabs\<close> in \<^verbatim>\<open>load_container\<close>).
\<close>

definition tabbed_about_app :: app where
  "tabbed_about_app =
     about_app\<lparr>tabs := [tab_a],
       layout := (layout about_app)\<lparr>focusable := (\<lambda>e. e \<noteq> logo)\<rparr>\<rparr>"

text \<open>The style of \<open>empty_app\<close>, whose colour scheme is \<^verbatim>\<open>inverse\<close>.\<close>

definition styled_palette :: palette where
  "styled_palette =
     [(''ansiblue'', (''ansiblue'', ''ansiblue'')), (''fg'', (''#FFFFFF'', ''default'')),
      (''bg'', (''#000000'', ''default'')), (''hl'', (''ansiblue'', ''ansiblue''))]"

definition inverse_transformation :: style_transformation where
  "inverse_transformation =
     MergedStyleTransformation
       [ConditionalStyleTransformation
          (SetDefaultColorStyleTransformation ''#FFFFFF'' ''#000000'') True,
        ConditionalStyleTransformation SwapLightAndDarkStyleTransformation True]"

definition example_style :: style where
  "example_style =
     MergedStyle [PygmentsStyle ''default'', MIME_STYLE, MARKDOWN_STYLE, LOG_STYLE,
                  IPYWIDGET_STYLE, BuiltStyle styled_palette]"

text \<open>
  An application whose input is a closed pipe, which is read with the vt100 parser, and
  the same after \<^verbatim>\<open>pre_run\<close>.
\<close>

definition pipe_app :: app where
  "pipe_app = empty_app\<lparr>using_vt100 := True\<rparr>"

definition started_app :: app where
  "started_app =
     pipe_app\<lparr>tabs := [tab_a], next_ident := 1,
       layout := example_layout\<lparr>current_control := TabElement tab_a\<rparr>,
       effects := [NewLayout, RequestAbsoluteCursorPosition, Invalidate],
       term_info := example_term_info\<lparr>colors_event := [UpdateStyle],
                      background_color_event := [UpdateStyle],
                      foreground_color_event := [UpdateStyle]\<rparr>,
       style_transformation := inverse_transformation, color_palette := styled_palette,
       renderer_style := example_style, is_running := True,
       background_tasks := [PollTerminalColors], key_bindings_loaded := True\<rparr>"

section \<open>Unfolding\<close>

lemmas example_defs =
  tab_a_def tab_b_def tab_c_def tab_d_def logo_def example_layout_def example_config_def
  example_term_info_def example_env_def empty_app_def abc_app_def new_app_def
  opened_app_def after_ops_def halted_app_def about_app_def tabbed_about_app_def
  styled_palette_def inverse_transformation_def example_style_def pipe_app_def
  started_app_def

lemmas tab_defs =
  tab_def set_tab_idx_def focus_tab_def next_tab_def previous_tab_def
  cleanup_closed_tab_def really_close_def tab_close_def close_tab_def exit_def
  open_file_def new_tab_def tab_focus_def index_def has_focus_def find_all_controls_def
  focus_def focus_control_def focus_next_def layout_focus_def layout_focus_control_def
  layout_focus_next_def

lemmas dialog_defs =
  dialog_def inner_def add_float_def remove_float_def

lemmas style_defs =
  create_merged_style_def base_colors_def theme_colors_def dict_merge_def add_color_def
  update_style_def

lemmas startup_defs =
  pre_run_def terminal_ready_def open_files_def post_load_def load_clipboard_def
  load_key_bindings_def COLOR_DEPTHS_def

section \<open>The current tab\<close>

lemma focused_index_bound:
  "focused_index p i ts = Some j \<Longrightarrow> i \<le> j \<and> j < i + length ts"
proof (induction ts arbitrary: i)
  case Nil
  then show ?case by simp
next
  case (Cons a ts)
  show ?case
  proof (cases "p a")
    case True
    with Cons.prems show ?thesis by simp
  next
    case False
    with Cons.prems have "focused_index p (Suc i) ts = Some j" by simp
    from Cons.IH [OF this] show ?thesis by simp
  qed
qed

lemma tab_tabs: "tabs (snd (tab s)) = tabs s"
  by (simp add: tab_def Let_def split: option.splits)

lemma tab_frame: "snd (tab s) = s\<lparr>tab_idx := tab_idx (snd (tab s))\<rparr>"
  by (simp add: tab_def Let_def split: option.splits)

lemma tab_idx_range:
  assumes "tabs s \<noteq> []"
  shows "0 \<le> tab_idx (snd (tab s)) \<and> tab_idx (snd (tab s)) < int (length (tabs s))"
  using assms by (auto simp: tab_def Let_def split: option.splits)

lemma tab_fst:
  "fst (tab s) = (if tabs s = [] then None else Some (tabs s ! nat (tab_idx (snd (tab s)))))"
  by (simp add: tab_def Let_def split: option.splits)

text \<open>Reading the property a second time changes nothing more.\<close>

lemma tab_idempotent: "tab (snd (tab s)) = tab s"
proof (cases "tabs s = []")
  case True
  then show ?thesis by (simp add: tab_def)
next
  case False
  show ?thesis
  proof (cases "focused_index (\<lambda>t. render_counter s > 0 \<and> has_focus (layout s) t) 0 (tabs s)")
    case None
    with False show ?thesis
      by (simp add: tab_def Let_def min_def max_def)
  next
    case (Some j)
    then have "j < length (tabs s)"
      using focused_index_bound by fastforce
    with False Some show ?thesis
      by (simp add: tab_def Let_def min_def max_def)
  qed
qed

text \<open>
  C9. After any sequence of operations on the tab collection that ran without error,
  reading the current tab leaves an index with \<open>0 \<le> index < length\<close> when the collection
  is not empty, and returns the tab at that index; on an empty collection it returns
  no tab. (The clamp is part of every read, so this holds in whatever state the
  operations have left.)
\<close>

theorem tab_index_in_range:
  assumes "run env ops s0 = Inr s"
  shows "if tabs s \<noteq> []
         then 0 \<le> tab_idx (snd (tab s)) \<and> tab_idx (snd (tab s)) < int (length (tabs s))
              \<and> fst (tab s) = Some (tabs s ! nat (tab_idx (snd (tab s))))
         else fst (tab s) = None"
  using tab_idx_range [of s] by (simp add: tab_fst)

theorem tab_index_in_range_witness:
  "run example_env [OpenFile ''a.ipynb'', OpenFile ''b.ipynb'', NextTab, CloseTab None] empty_app
     = Inr after_ops
   \<and> tabs after_ops \<noteq> []
   \<and> 0 \<le> tab_idx (snd (tab after_ops))
   \<and> tab_idx (snd (tab after_ops)) < int (length (tabs after_ops))
   \<and> fst (tab after_ops) = Some (tabs after_ops ! nat (tab_idx (snd (tab after_ops))))"
proof -
  have h: "run example_env [OpenFile ''a.ipynb'', OpenFile ''b.ipynb'', NextTab, CloseTab None]
             empty_app = Inr after_ops"
    by (simp add: example_defs tab_defs Let_def)
  have ne: "tabs after_ops \<noteq> []"
    by (simp add: after_ops_def)
  from tab_index_in_range [OF h] ne h show ?thesis by simp
qed

section \<open>Setting the index\<close>

text \<open>
  C3, as amended. For every integer \<open>i\<close> and every tab collection that is not empty,
  setting the index stores \<open>i\<close> modulo the length, which lies in \<open>0 \<le> index < length\<close>,
  and the only error that can surface is the layout's ValueError when the tab at that
  index cannot take focus. (On an empty collection the modulo itself raises; the
  commands that set the index are enabled only while a tab has focus.)
\<close>

theorem set_tab_idx_normalizes:
  assumes "tabs s \<noteq> []"
  shows "0 \<le> i mod int (length (tabs s)) \<and> i mod int (length (tabs s)) < int (length (tabs s))
         \<and> set_tab_idx i s =
             (if focusable (layout s) (TabElement (tabs s ! nat (i mod int (length (tabs s)))))
              then Inr (s\<lparr>tab_idx := i mod int (length (tabs s)),
                           layout := (layout s)\<lparr>current_control :=
                              TabElement (tabs s ! nat (i mod int (length (tabs s))))\<rparr>\<rparr>)
              else Inl (ValueError, s\<lparr>tab_idx := i mod int (length (tabs s))\<rparr>))"
  using assms by (simp add: set_tab_idx_def layout_focus_def focus_def Let_def)

theorem set_tab_idx_normalizes_witness:
  "tabs abc_app \<noteq> []
   \<and> set_tab_idx (- 1) abc_app =
       Inr (abc_app\<lparr>tab_idx := 2,
              layout := (layout abc_app)\<lparr>current_control := TabElement tab_c\<rparr>\<rparr>)
   \<and> set_tab_idx 7 abc_app =
       Inr (abc_app\<lparr>tab_idx := 1,
              layout := (layout abc_app)\<lparr>current_control := TabElement tab_b\<rparr>\<rparr>)"
proof -
  have ne: "tabs abc_app \<noteq> []"
    by (simp add: abc_app_def)
  from set_tab_idx_normalizes [OF ne, of "- 1"] set_tab_idx_normalizes [OF ne, of 7] ne
  show ?thesis
    by (simp add: example_defs)
qed

text \<open>
  C3 as stated fails on the empty collection: the setter raises ZeroDivisionError.
\<close>

theorem set_tab_idx_empty_counterexample:
  "tabs empty_app = [] \<and> set_tab_idx 0 empty_app = Inl (ZeroDivisionError, empty_app)"
  by (simp add: example_defs set_tab_idx_def)

section \<open>Shutdown\<close>

text \<open>A link of the chain cleans up one tab and then asks the other to close.\<close>

lemma run_cb_chain:
  "run_cb env (ChainCb t u c) s =
     (case cleanup_closed_tab u s of
        Inl e \<Rightarrow> Inl e
      | Inr s1 \<Rightarrow> tab_close env t c s1)"
  by (simp add: tab_close_def Let_def split: sum.splits)

text \<open>
  The chain runs from the last tab to the first: when only \<open>tab_a\<close> declines, \<open>tab_c\<close> and
  \<open>tab_b\<close> are closed and removed, in that order, and \<open>tab_a\<close> remains.
\<close>

lemma exit_runs_backwards:
  "\<exists>s'. exit (example_env\<lparr>closes := (\<lambda>t. t \<noteq> tab_a)\<rparr>) abc_app = Inr s'
        \<and> tabs s' = [tab_a]
        \<and> effects s' = [TabCloseRequested tab_c, TabCloseRequested tab_b,
                         TabCloseRequested tab_a]
        \<and> pending s' = [(tab_a, FinalCb)]"
  by (simp add: example_defs tab_defs Let_def)

text \<open>
  C8. When the tab collection is empty, a shutdown request calls the real exit within
  the call and does nothing else: no callback is built or kept, no tab is asked to
  close, and the collection stays empty.
\<close>

theorem exit_empty_collection:
  assumes "tabs s = []"
  shows "exit env s = Inr (s\<lparr>effects := effects s @ [ReallyClose]\<rparr>)"
  using assms by (simp add: exit_def really_close_def)

theorem exit_empty_collection_witness:
  "tabs empty_app = []
   \<and> exit example_env empty_app = Inr (empty_app\<lparr>effects := [ReallyClose]\<rparr>)"
proof -
  have e: "tabs empty_app = []"
    by (simp add: example_defs)
  from exit_empty_collection [OF e, of example_env] e show ?thesis
    by (simp add: example_defs)
qed

text \<open>
  C1, as amended. With tabs \<open>[A, B, C]\<close>, the chain asks \<open>C\<close>, the last tab, to close
  first. When \<open>C\<close> declines, whatever \<open>A\<close> and \<open>B\<close> would do, the collection is left as
  it was, \<open>[A, B, C]\<close>; the only request made is the one to \<open>C\<close>, which keeps the chain's
  callback; and the real exit is not called.
\<close>

theorem exit_halts_at_last_tab:
  assumes "tabs s = [A, B, C]" and "\<not> closes env C"
  shows "exit env s =
           Inr (s\<lparr>effects := effects s @ [TabCloseRequested C],
                  pending := pending s @ [(C, ChainCb B C (ChainCb A B FinalCb))]\<rparr>)"
  using assms by (simp add: exit_def tab_close_def Let_def)

theorem exit_halts_at_last_tab_witness:
  "tabs abc_app = [tab_a, tab_b, tab_c] \<and> \<not> closes example_env tab_c
   \<and> closes example_env tab_a \<and> closes example_env tab_b
   \<and> exit example_env abc_app = Inr halted_app
   \<and> tabs halted_app = [tab_a, tab_b, tab_c]
   \<and> ReallyClose \<notin> set (effects halted_app)"
proof -
  have t: "tabs abc_app = [tab_a, tab_b, tab_c]"
    by (simp add: example_defs)
  have c: "\<not> closes example_env tab_c"
    by (simp add: example_defs)
  from exit_halts_at_last_tab [OF t c] t c show ?thesis
    by (simp add: example_defs)
qed

text \<open>
  C1 as stated fails: with \<open>A\<close> and \<open>B\<close> ready to complete and \<open>C\<close> declining, the
  collection after the request is still \<open>[A, B, C]\<close>, not \<open>[C]\<close>.
\<close>

theorem exit_keeps_first_tabs_counterexample:
  "closes example_env tab_a \<and> closes example_env tab_b \<and> \<not> closes example_env tab_c
   \<and> (\<exists>s'. exit example_env abc_app = Inr s'
            \<and> tabs s' = [tab_a, tab_b, tab_c] \<and> tabs s' \<noteq> [tab_c])"
  by (simp add: example_defs tab_defs Let_def)

text \<open>
  A shutdown request made while callbacks of an earlier request are still held by tabs.
  Nothing in the tab collection's code reads them.
\<close>

lemma tab_with_pending:
  "tab (with_pending p s) = (fst (tab s), with_pending p (snd (tab s)))"
  by (simp add: tab_def with_pending_def Let_def split: option.splits)

lemma layout_focus_with_pending:
  "layout_focus e (with_pending p s) = map_result (with_pending p) (layout_focus e s)"
  by (simp add: layout_focus_def with_pending_def map_result_def split: sum.splits)

lemma layout_focus_next_with_pending:
  "layout_focus_next (with_pending p s) = map_result (with_pending p) (layout_focus_next s)"
  by (simp add: layout_focus_next_def with_pending_def map_result_def split: sum.splits)

lemma cleanup_closed_tab_with_pending:
  "cleanup_closed_tab t (with_pending p s) = map_result (with_pending p) (cleanup_closed_tab t s)"
proof (cases "t \<in> set (tabs s)")
  case False
  then show ?thesis
    by (simp add: cleanup_closed_tab_def with_pending_def map_result_def)
next
  case True
  let ?s1 = "s\<lparr>tabs := remove1 t (tabs s)\<rparr>"
  have eq: "(with_pending p s)\<lparr>tabs := remove1 t (tabs s)\<rparr> = with_pending p ?s1"
    by (simp add: with_pending_def)
  have tabs_wp: "tabs (with_pending p s) = tabs s"
    by (simp add: with_pending_def)
  show ?thesis
    using True
    apply (simp only: cleanup_closed_tab_def tabs_wp Let_def eq if_not_P not_not)
    apply (simp only: tab_with_pending)
    apply (cases "tab ?s1")
    subgoal for a b
      apply (cases a)
       apply (simp add: layout_focus_next_with_pending map_result_def split: sum.splits error.splits prod.splits)
      apply (cases "tab b")
      subgoal for a2 c d
        by (cases c) (simp_all add: tab_with_pending layout_focus_with_pending map_result_def split: sum.splits prod.splits)
      done
    done
qed

lemma really_close_with_pending:
  "really_close (with_pending p s) = map_result (with_pending p) (really_close s)"
  by (simp add: really_close_def with_pending_def map_result_def)

lemma run_cb_with_pending:
  "run_cb env c (with_pending p s) = map_result (with_pending p) (run_cb env c s)"
proof (induction c arbitrary: s)
  case FinalCb
  have tabs_wp: "tabs (with_pending p s) = tabs s"
    by (simp add: with_pending_def)
  show ?case
  proof (cases "tabs s")
    case Nil
    then show ?thesis by (simp add: tabs_wp map_result_def)
  next
    case (Cons t ts)
    then show ?thesis
      by (cases "cleanup_closed_tab t s")
         (auto simp: tabs_wp cleanup_closed_tab_with_pending really_close_with_pending map_result_def)
  qed
next
  case (CleanupCb t)
  show ?case by (simp add: cleanup_closed_tab_with_pending)
next
  case (ChainCb t1 t2 c)
  show ?case
  proof (cases "cleanup_closed_tab t2 s")
    case (Inl e)
    then show ?thesis
      by (cases e) (simp add: cleanup_closed_tab_with_pending map_result_def)
  next
    case (Inr s1)
    have comm: "(with_pending p s1)\<lparr>effects := effects (with_pending p s1) @ [TabCloseRequested t1]\<rparr>
          = with_pending p (s1\<lparr>effects := effects s1 @ [TabCloseRequested t1]\<rparr>)"
      by (simp add: with_pending_def)
    show ?thesis
    proof (cases "closes env t1")
      case True
      with Inr show ?thesis
        by (simp add: cleanup_closed_tab_with_pending map_result_def [of _ "Inr s1"] Let_def comm ChainCb.IH)
    next
      case False
      have lhs: "run_cb env (ChainCb t1 t2 c) (with_pending p s) =
              Inr ((with_pending p s1)\<lparr>effects := effects (with_pending p s1) @ [TabCloseRequested t1],
                     pending := pending (with_pending p s1) @ [(t1, c)]\<rparr>)"
        using Inr False
        by (simp add: cleanup_closed_tab_with_pending map_result_def Let_def)
      have rhs: "map_result (with_pending p) (run_cb env (ChainCb t1 t2 c) s) =
              Inr (with_pending p (s1\<lparr>effects := effects s1 @ [TabCloseRequested t1],
                     pending := pending s1 @ [(t1, c)]\<rparr>))"
        using Inr False by (simp add: map_result_def Let_def)
      show ?thesis
        unfolding lhs rhs by (simp add: with_pending_def)
    qed
  qed
qed

lemma tab_close_with_pending:
  "tab_close env t c (with_pending p s) = map_result (with_pending p) (tab_close env t c s)"
proof -
  have comm: "(with_pending p s)\<lparr>effects := effects (with_pending p s) @ [TabCloseRequested t]\<rparr>
          = with_pending p (s\<lparr>effects := effects s @ [TabCloseRequested t]\<rparr>)"
    by (simp add: with_pending_def)
  show ?thesis
  proof (cases "closes env t")
    case True
    then show ?thesis
      by (simp add: tab_close_def Let_def comm run_cb_with_pending)
  next
    case False
    then show ?thesis
      by (simp add: tab_close_def Let_def map_result_def with_pending_def)
  qed
qed

text \<open>The request with callbacks pending is the request with none, the callbacks kept.\<close>

lemma exit_with_pending:
  "exit env (with_pending p s) = map_result (with_pending p) (exit env s)"
proof -
  have tabs_wp: "tabs (with_pending p s) = tabs s"
    by (simp add: with_pending_def)
  show ?thesis
    by (simp add: exit_def tabs_wp Let_def tab_close_with_pending really_close_with_pending)
qed

text \<open>Cleaning up after a tab records no call; running a callback only adds calls.\<close>

lemma tab_effects: "effects (snd (tab s)) = effects s"
  by (simp add: tab_def Let_def split: option.splits)

lemma cleanup_closed_tab_effects:
  "effects (state_of (cleanup_closed_tab t s)) = effects s"
proof (cases "t \<in> set (tabs s)")
  case False
  then show ?thesis by (simp add: cleanup_closed_tab_def state_of_def)
next
  case True
  let ?s1 = "s\<lparr>tabs := remove1 t (tabs s)\<rparr>"
  obtain a b where ab: "tab ?s1 = (a, b)" by (cases "tab ?s1")
  obtain c d where cd: "tab b = (c, d)" by (cases "tab b")
  have eb: "effects b = effects s"
    using tab_effects [of ?s1] ab by simp
  have ed: "effects d = effects s"
    using tab_effects [of b] cd eb by simp
  show ?thesis
    using True ab cd eb ed
    by (auto simp: cleanup_closed_tab_def state_of_def Let_def layout_focus_def
        layout_focus_next_def split: option.splits sum.splits error.splits prod.splits)
qed

lemma run_cb_effects:
  "\<exists>es. effects (state_of (run_cb env c s)) = effects s @ es"
proof (induction c arbitrary: s)
  case FinalCb
  show ?case
  proof (cases "tabs s")
    case Nil
    then show ?thesis by (simp add: state_of_def)
  next
    case (Cons t ts)
    show ?thesis
    proof (cases "cleanup_closed_tab t s")
      case (Inl x)
      with Cons cleanup_closed_tab_effects [of t s] show ?thesis
        by (simp add: state_of_def split: prod.splits)
    next
      case (Inr s1)
      with Cons cleanup_closed_tab_effects [of t s] show ?thesis
        by (simp add: state_of_def really_close_def)
    qed
  qed
next
  case (CleanupCb t)
  show ?case using cleanup_closed_tab_effects [of t s] by simp
next
  case (ChainCb t1 t2 c)
  show ?case
  proof (cases "cleanup_closed_tab t2 s")
    case (Inl x)
    with cleanup_closed_tab_effects [of t2 s] show ?thesis
      by (simp add: state_of_def split: prod.splits)
  next
    case (Inr s1)
    with cleanup_closed_tab_effects [of t2 s] have e1: "effects s1 = effects s"
      by (simp add: state_of_def)
    show ?thesis
    proof (cases "closes env t1")
      case True
      from ChainCb.IH [of "s1\<lparr>effects := effects s1 @ [TabCloseRequested t1]\<rparr>"]
      obtain es where "effects (state_of (run_cb env c (s1\<lparr>effects := effects s1 @ [TabCloseRequested t1]\<rparr>)))
         = effects s @ TabCloseRequested t1 # es"
        using e1 by auto
      with Inr True show ?thesis by (simp add: Let_def)
    next
      case False
      with Inr e1 show ?thesis by (simp add: Let_def state_of_def)
    qed
  qed
qed

text \<open>
  C4, as amended. The application keeps no record of a close chain in flight and has
  no guard against a second one. Every shutdown request on a collection that is not
  empty, also one made while callbacks of an earlier chain are still pending, is not a
  no-op: it asks the last tab to close, handing it a new chain built over the current
  tab list, which the tab either runs or keeps, after the callbacks already pending.
  The pending callbacks of the earlier chain are left in place and do not change what
  the request does.
\<close>

theorem exit_with_chain_in_flight:
  assumes "tabs s \<noteq> []"
  shows "exit env s \<noteq> Inr s
       \<and> (\<exists>es. effects (state_of (exit env s))
                   = effects s @ TabCloseRequested (last (tabs s)) # es)
       \<and> exit env s =
           (if closes env (last (tabs s))
            then run_cb env (chain FinalCb (zip (tabs s) (drop 1 (tabs s))))
                   (s\<lparr>effects := effects s @ [TabCloseRequested (last (tabs s))]\<rparr>)
            else Inr (s\<lparr>effects := effects s @ [TabCloseRequested (last (tabs s))],
                        pending := pending s @
                          [(last (tabs s), chain FinalCb (zip (tabs s) (drop 1 (tabs s))))]\<rparr>))
       \<and> exit env (with_pending p s) = map_result (with_pending p) (exit env s)"
proof -
  let ?t = "last (tabs s)"
  let ?c = "chain FinalCb (zip (tabs s) (drop 1 (tabs s)))"
  let ?s1 = "s\<lparr>effects := effects s @ [TabCloseRequested ?t]\<rparr>"
  have ex: "exit env s = tab_close env ?t ?c s"
    using assms by (simp add: exit_def Let_def)
  have pre: "\<exists>es. effects (state_of (exit env s)) = effects s @ TabCloseRequested ?t # es"
  proof (cases "closes env ?t")
    case True
    from run_cb_effects [of env ?c ?s1] obtain es
      where "effects (state_of (run_cb env ?c ?s1)) = effects ?s1 @ es" by blast
    with True ex show ?thesis by (simp add: tab_close_def Let_def)
  next
    case False
    with ex show ?thesis by (simp add: tab_close_def Let_def state_of_def)
  qed
  have ne: "exit env s \<noteq> Inr s"
  proof
    assume "exit env s = Inr s"
    then have "state_of (exit env s) = s" by (simp add: state_of_def)
    with pre show False by auto
  qed
  have eq: "exit env s =
           (if closes env ?t then run_cb env ?c ?s1
            else Inr (s\<lparr>effects := effects s @ [TabCloseRequested ?t],
                        pending := pending s @ [(?t, ?c)]\<rparr>))"
    using ex by (simp add: tab_close_def Let_def)
  from ne pre eq exit_with_pending [of env p s] show ?thesis
    by (intro conjI)
qed

theorem exit_with_chain_in_flight_witness:
  "tabs halted_app \<noteq> [] \<and> pending halted_app \<noteq> []
   \<and> exit example_env halted_app =
       Inr (halted_app\<lparr>effects := [TabCloseRequested tab_c, TabCloseRequested tab_c],
              pending := [(tab_c, ChainCb tab_b tab_c (ChainCb tab_a tab_b FinalCb)),
                          (tab_c, ChainCb tab_b tab_c (ChainCb tab_a tab_b FinalCb))]\<rparr>)"
proof -
  have ne: "tabs halted_app \<noteq> []"
    by (simp add: example_defs)
  from exit_with_chain_in_flight [OF ne, of example_env "[]"] ne show ?thesis
    by (simp add: example_defs)
qed

text \<open>
  C4 as stated fails. After a request that halted at \<open>tab_c\<close>, a second request is not a
  no-op: it asks \<open>tab_c\<close> to close again and a second chain is pending. And when a tab
  was opened in between, the second request asks that tab to close, which no chain in
  flight holds.
\<close>

theorem exit_twice_counterexample:
  "exit example_env abc_app = Inr halted_app
   \<and> pending halted_app \<noteq> []
   \<and> exit example_env halted_app \<noteq> Inr halted_app
   \<and> (\<exists>s'. exit example_env halted_app = Inr s'
            \<and> effects s' = [TabCloseRequested tab_c, TabCloseRequested tab_c]
            \<and> length (pending s') = 2)
   \<and> (\<exists>s1 s2. open_file example_env ''d.ipynb'' halted_app = Inr s1
              \<and> tabs s1 = [tab_a, tab_b, tab_c, tab_d]
              \<and> exit example_env s1 = Inr s2
              \<and> effects s2 = [TabCloseRequested tab_c, TabCloseRequested tab_d,
                               TabCloseRequested tab_c]
              \<and> tabs s2 = [tab_a, tab_b, tab_c])"
  by (simp add: example_defs tab_defs Let_def)

section \<open>Dialogs are modal\<close>

text \<open>
  C2. While a dialog is active, a call to show a dialog returns without an error and
  leaves the application as it was: the overlay list, the active-dialog flag and the
  focus are unchanged.
\<close>

theorem dialog_noop_when_active:
  assumes "has_dialog s"
  shows "dialog title body buttons to_focus s = Inr s"
  using assms by (simp add: dialog_def)

theorem dialog_noop_when_active_witness:
  "dialog ''About'' (ControlElement 7) [(''OK'', None)] None empty_app = Inr about_app
   \<and> has_dialog about_app
   \<and> dialog ''Error'' (ControlElement 9) [(''OK'', None)] None about_app = Inr about_app"
proof -
  have h: "has_dialog about_app"
    by (simp add: example_defs)
  from dialog_noop_when_active [OF h] h show ?thesis
    by (simp add: example_defs dialog_defs layout_focus_def focus_def Let_def)
qed

text \<open>
  C5, as amended. Dismissing a dialog, by a button or by Escape, removes the dialog
  from the overlay list and clears the active-dialog flag; the focus returns to the
  control that had it when the dialog was shown if and only if that control is still
  in the layout and accepts the focus (otherwise the focus is left where it is, and no
  error is raised: the ValueError of the focus request is swallowed); nothing else
  changes; and the button's callback, if there is one, runs after that, on the
  application in that state.
\<close>

theorem inner_dismisses:
  "\<exists>s'. inner focused dialog_float cb s = (case cb of None \<Rightarrow> Inr s' | Some f \<Rightarrow> f s')
      \<and> s' = s\<lparr>dialogs := remove1 dialog_float (dialogs s), has_dialog := False,
                 layout := (if focused \<in> set (find_all_controls (layout s)) \<and> focusable (layout s) focused
                            then (layout s)\<lparr>current_control := focused\<rparr> else layout s)\<rparr>"
  by (auto simp: inner_def remove_float_def layout_focus_control_def focus_control_def Let_def
      find_all_controls_def split: option.splits)

theorem inner_dismisses_witness:
  "current_control (layout empty_app) = logo \<and> next_ident empty_app = 0
   \<and> dialog ''About'' (ControlElement 7) [(''OK'', None)] None empty_app = Inr about_app
   \<and> logo \<in> set (find_all_controls (layout about_app)) \<and> focusable (layout about_app) logo
   \<and> inner logo 0 None about_app
       = Inr (empty_app\<lparr>next_ident := 1, effects := [Invalidate]\<rparr>)
   \<and> current_control (layout (empty_app\<lparr>next_ident := 1, effects := [Invalidate]\<rparr>)) = logo"
  using inner_dismisses [of logo 0 None about_app]
  by (simp add: example_defs find_all_controls_def dialog_defs layout_focus_def focus_def
      Let_def)

text \<open>
  C5 as stated fails: the control that had the focus is still in the layout, the
  dialog is dismissed without an error, and the focus is not restored.
\<close>

theorem inner_present_not_restored_counterexample:
  "logo \<in> set (find_all_controls (layout tabbed_about_app))
   \<and> (\<exists>s'. inner logo 0 None tabbed_about_app = Inr s'
            \<and> current_control (layout s') \<noteq> logo)"
  by (simp add: example_defs dialog_defs layout_focus_control_def focus_control_def
      find_all_controls_def Let_def)

section \<open>Opening a file twice\<close>

lemma set_tab_idx_frame:
  "set_tab_idx i s = Inr s' \<Longrightarrow> \<exists>j L. s' = s\<lparr>tab_idx := j, layout := L\<rparr>"
  by (auto simp: set_tab_idx_def layout_focus_def Let_def split: if_splits sum.splits)

lemma focus_tab_frame:
  "focus_tab t s = Inr s' \<Longrightarrow> \<exists>j L. s' = s\<lparr>tab_idx := j, layout := L\<rparr>"
  by (auto simp: focus_tab_def dest: set_tab_idx_frame split: option.splits)

lemma open_file_frame:
  assumes "open_file env p s = Inr s'"
  shows "\<exists>ts j n L. s' = s\<lparr>tabs := ts, tab_idx := j, next_ident := n, layout := L\<rparr>"
proof (cases "find (\<lambda>t. Some (parse_path env p) = tab_path t) (tabs s)")
  case (Some t)
  with assms have "s' = s" by (simp add: open_file_def)
  then have "s' = s\<lparr>tabs := tabs s, tab_idx := tab_idx s, next_ident := next_ident s, layout := layout s\<rparr>"
    by simp
  then show ?thesis by blast
next
  case None
  show ?thesis
  proof (cases "get_file_tab env p")
    case gNone: None
    with None assms have "s' = s" by (simp add: open_file_def)
    then have "s' = s\<lparr>tabs := tabs s, tab_idx := tab_idx s, next_ident := next_ident s, layout := layout s\<rparr>"
      by simp
    then show ?thesis by blast
  next
    case (Some c)
    let ?t = "Tab (next_ident s) c (Some (parse_path env p))"
    let ?s2 = "s\<lparr>next_ident := Suc (next_ident s), tabs := tabs s @ [?t]\<rparr>"
    from None Some assms have "focus_tab ?t ?s2 = Inr s'"
      by (simp add: open_file_def new_tab_def tab_focus_def Let_def)
    from focus_tab_frame [OF this] obtain j L where "s' = ?s2\<lparr>tab_idx := j, layout := L\<rparr>"
      by blast
    then have "s' = s\<lparr>tabs := tabs s @ [?t], tab_idx := j, next_ident := Suc (next_ident s), layout := L\<rparr>"
      by simp
    then show ?thesis by blast
  qed
qed

lemma open_each_frame:
  "open_each env fs s = Inr s' \<Longrightarrow>
     \<exists>ts j n L. s' = s\<lparr>tabs := ts, tab_idx := j, next_ident := n, layout := L\<rparr>"
proof (induction fs arbitrary: s)
  case Nil
  then have "s' = s\<lparr>tabs := tabs s, tab_idx := tab_idx s, next_ident := next_ident s, layout := layout s\<rparr>"
    by simp
  then show ?case by blast
next
  case (Cons f fs)
  from Cons.prems obtain s1 where 1: "open_file env f s = Inr s1" and 2: "open_each env fs s1 = Inr s'"
    by (auto split: sum.splits)
  from open_file_frame [OF 1] obtain ts j n L
    where a: "s1 = s\<lparr>tabs := ts, tab_idx := j, next_ident := n, layout := L\<rparr>" by blast
  from Cons.IH [OF 2] obtain ts' j' n' L'
    where b: "s' = s1\<lparr>tabs := ts', tab_idx := j', next_ident := n', layout := L'\<rparr>" by blast
  from a b have "s' = s\<lparr>tabs := ts', tab_idx := j', next_ident := n', layout := L'\<rparr>"
    by simp
  then show ?case by blast
qed

text \<open>What focusing a tab, opening a file and opening a list of files leave.\<close>

lemma index_from_Some:
  "index_from x i xs = Some j \<Longrightarrow> i \<le> j \<and> j < i + length xs \<and> xs ! (j - i) = x"
proof (induction xs arbitrary: i)
  case Nil
  then show ?case by simp
next
  case (Cons y ys)
  show ?case
  proof (cases "y = x")
    case True
    with Cons.prems show ?thesis by simp
  next
    case False
    with Cons.prems have "index_from x (Suc i) ys = Some j" by simp
    from Cons.IH [OF this] have "Suc i \<le> j" "j < Suc i + length ys" "ys ! (j - Suc i) = x"
      by simp_all
    moreover from \<open>Suc i \<le> j\<close> have "j - i = Suc (j - Suc i)" by simp
    ultimately show ?thesis by simp
  qed
qed

lemma index_Some: "index xs x = Some j \<Longrightarrow> j < length xs \<and> xs ! j = x"
  using index_from_Some [of x 0 xs j] by (simp add: index_def)

lemma focus_tab_result:
  assumes "focus_tab t s = Inr s'"
  shows "\<exists>i. i < length (tabs s) \<and> tabs s ! i = t
            \<and> s' = s\<lparr>tab_idx := int i, layout := (layout s)\<lparr>current_control := TabElement t\<rparr>\<rparr>"
proof -
  from assms obtain i where i: "index (tabs s) t = Some i" and r: "set_tab_idx (int i) s = Inr s'"
    by (auto simp: focus_tab_def split: option.splits)
  from index_Some [OF i] have b: "i < length (tabs s)" and e: "tabs s ! i = t" by simp_all
  from b have m: "int i mod int (length (tabs s)) = int i" by simp
  from r b e m have "s' = s\<lparr>tab_idx := int i, layout := (layout s)\<lparr>current_control := TabElement t\<rparr>\<rparr>"
    by (auto simp: set_tab_idx_def layout_focus_def focus_def Let_def split: if_splits)
  with b e show ?thesis by blast
qed

lemma open_file_result:
  assumes "open_file env p s = Inr s'"
  shows "s' = s \<or>
         (\<exists>c j. get_file_tab env p = Some c
            \<and> s' = s\<lparr>tabs := tabs s @ [Tab (next_ident s) c (Some (parse_path env p))],
                     tab_idx := j, next_ident := Suc (next_ident s),
                     layout := (layout s)\<lparr>current_control :=
                        TabElement (Tab (next_ident s) c (Some (parse_path env p)))\<rparr>\<rparr>)"
proof (cases "find (\<lambda>t. Some (parse_path env p) = tab_path t) (tabs s)")
  case (Some t)
  with assms show ?thesis by (simp add: open_file_def)
next
  case None
  show ?thesis
  proof (cases "get_file_tab env p")
    case gNone: None
    with None assms show ?thesis by (simp add: open_file_def)
  next
    case (Some c)
    let ?t = "Tab (next_ident s) c (Some (parse_path env p))"
    let ?s2 = "s\<lparr>next_ident := Suc (next_ident s), tabs := tabs s @ [?t]\<rparr>"
    from None Some assms have "focus_tab ?t ?s2 = Inr s'"
      by (simp add: open_file_def new_tab_def tab_focus_def Let_def)
    from focus_tab_result [OF this] obtain i
      where "s' = ?s2\<lparr>tab_idx := int i, layout := (layout ?s2)\<lparr>current_control := TabElement ?t\<rparr>\<rparr>"
      by blast
    then have "s' = s\<lparr>tabs := tabs s @ [?t], tab_idx := int i, next_ident := Suc (next_ident s),
                     layout := (layout s)\<lparr>current_control := TabElement ?t\<rparr>\<rparr>"
      by simp
    with Some show ?thesis by blast
  qed
qed

lemma open_file_opens:
  assumes "open_file env p s = Inr s'" and "get_file_tab env p \<noteq> None"
  shows "\<exists>t \<in> set (tabs s'). tab_path t = Some (parse_path env p)"
proof (cases "find (\<lambda>t. Some (parse_path env p) = tab_path t) (tabs s)")
  case (Some t)
  then have "t \<in> set (tabs s) \<and> Some (parse_path env p) = tab_path t"
    by (auto simp: find_Some_iff)
  moreover from Some assms have "s' = s" by (simp add: open_file_def)
  ultimately show ?thesis by auto
next
  case None
  from assms(2) obtain c where c: "get_file_tab env p = Some c" by auto
  let ?t = "Tab (next_ident s) c (Some (parse_path env p))"
  let ?s2 = "s\<lparr>next_ident := Suc (next_ident s), tabs := tabs s @ [?t]\<rparr>"
  from None c assms(1) have "focus_tab ?t ?s2 = Inr s'"
    by (simp add: open_file_def new_tab_def tab_focus_def Let_def)
  from focus_tab_result [OF this] obtain i
    where "s' = ?s2\<lparr>tab_idx := int i, layout := (layout ?s2)\<lparr>current_control := TabElement ?t\<rparr>\<rparr>"
    by blast
  then have "tabs s' = tabs s @ [?t]" by simp
  then show ?thesis by auto
qed

lemma open_each_result:
  assumes "open_each env fs s = Inr s'"
  shows "(\<exists>ts j n L. tabs s' = tabs s @ ts
            \<and> s' = s\<lparr>tabs := tabs s @ ts, tab_idx := j, next_ident := n, layout := L\<rparr>
            \<and> controls L = controls (layout s) \<and> focusable L = focusable (layout s)
            \<and> (ts = [] \<longrightarrow> s' = s))
       \<and> (\<forall>f \<in> set fs. get_file_tab env f \<noteq> None \<longrightarrow>
              (\<exists>t \<in> set (tabs s'). tab_path t = Some (parse_path env f)))"
  using assms
proof (induction fs arbitrary: s)
  case Nil
  then have "s' = s" by simp
  then have "tabs s' = tabs s @ [] \<and>
      s' = s\<lparr>tabs := tabs s @ [], tab_idx := tab_idx s, next_ident := next_ident s, layout := layout s\<rparr>"
    by simp
  then have "\<exists>ts j n L. tabs s' = tabs s @ ts
            \<and> s' = s\<lparr>tabs := tabs s @ ts, tab_idx := j, next_ident := n, layout := L\<rparr>
            \<and> controls L = controls (layout s) \<and> focusable L = focusable (layout s)
            \<and> (ts = [] \<longrightarrow> s' = s)"
    using \<open>s' = s\<close>
    by (intro exI [of _ "[]"] exI [of _ "tab_idx s"] exI [of _ "next_ident s"]
        exI [of _ "layout s"]) simp
  then show ?case by simp
next
  case (Cons f fs)
  from Cons.prems obtain s1 where 1: "open_file env f s = Inr s1" and 2: "open_each env fs s1 = Inr s'"
    by (auto split: sum.splits)
  from Cons.IH [OF 2] obtain ts j n L where
    t: "tabs s' = tabs s1 @ ts" and
    f: "s' = s1\<lparr>tabs := tabs s1 @ ts, tab_idx := j, next_ident := n, layout := L\<rparr>" and
    c: "controls L = controls (layout s1)" "focusable L = focusable (layout s1)" and
    e: "ts = [] \<longrightarrow> s' = s1" and
    o: "\<forall>g \<in> set fs. get_file_tab env g \<noteq> None \<longrightarrow>
              (\<exists>t \<in> set (tabs s'). tab_path t = Some (parse_path env g))"
    by blast
  from open_file_result [OF 1]
  have first: "\<exists>ts j n L. tabs s' = tabs s @ ts
            \<and> s' = s\<lparr>tabs := tabs s @ ts, tab_idx := j, next_ident := n, layout := L\<rparr>
            \<and> controls L = controls (layout s) \<and> focusable L = focusable (layout s)
            \<and> (ts = [] \<longrightarrow> s' = s)"
  proof
    assume same: "s1 = s"
    with t f c e show ?thesis by blast
  next
    assume "\<exists>c j. get_file_tab env f = Some c
            \<and> s1 = s\<lparr>tabs := tabs s @ [Tab (next_ident s) c (Some (parse_path env f))],
                     tab_idx := j, next_ident := Suc (next_ident s),
                     layout := (layout s)\<lparr>current_control :=
                        TabElement (Tab (next_ident s) c (Some (parse_path env f)))\<rparr>\<rparr>"
    then obtain c' j' where
      s1: "s1 = s\<lparr>tabs := tabs s @ [Tab (next_ident s) c' (Some (parse_path env f))],
                     tab_idx := j', next_ident := Suc (next_ident s),
                     layout := (layout s)\<lparr>current_control :=
                        TabElement (Tab (next_ident s) c' (Some (parse_path env f)))\<rparr>\<rparr>"
      by blast
    let ?t = "Tab (next_ident s) c' (Some (parse_path env f))"
    from s1 t have a: "tabs s' = tabs s @ (?t # ts)" by simp
    from s1 f have b: "s' = s\<lparr>tabs := tabs s @ (?t # ts), tab_idx := j, next_ident := n, layout := L\<rparr>"
      by simp
    from s1 c have d: "controls L = controls (layout s)" "focusable L = focusable (layout s)"
      by simp_all
    from a b d show ?thesis by blast
  qed
  have opened: "\<forall>g \<in> set (f # fs). get_file_tab env g \<noteq> None \<longrightarrow>
              (\<exists>t \<in> set (tabs s'). tab_path t = Some (parse_path env g))"
  proof (intro ballI impI)
    fix g assume g: "g \<in> set (f # fs)" and k: "get_file_tab env g \<noteq> None"
    show "\<exists>t \<in> set (tabs s'). tab_path t = Some (parse_path env g)"
    proof (cases "g \<in> set fs")
      case True
      with o k show ?thesis by blast
    next
      case False
      with g have "g = f" by simp
      with open_file_opens [OF 1] k obtain t where "t \<in> set (tabs s1)" "tab_path t = Some (parse_path env g)"
        by blast
      with t show ?thesis by auto
    qed
  qed
  from first opened show ?case by blast
qed

text \<open>
  C10. Opening a file whose parsed path is the path of an open tab changes nothing:
  no tab is created or appended and the focus stays where it is. Hence a second call
  for the same path, right after a first one that returned, leaves the application as
  the first one left it.
\<close>

theorem open_file_same_path:
  "((\<exists>t \<in> set (tabs s). tab_path t = Some (parse_path env p)) \<longrightarrow> open_file env p s = Inr s)
   \<and> (open_file env p s = Inr s1 \<longrightarrow> open_file env p s1 = Inr s1)"
proof (intro conjI impI)
  assume "\<exists>t \<in> set (tabs s). tab_path t = Some (parse_path env p)"
  then have "find (\<lambda>t. Some (parse_path env p) = tab_path t) (tabs s) \<noteq> None"
    by (auto simp: find_None_iff)
  then show "open_file env p s = Inr s"
    by (auto simp: open_file_def)
next
  assume a: "open_file env p s = Inr s1"
  show "open_file env p s1 = Inr s1"
  proof (cases "find (\<lambda>t. Some (parse_path env p) = tab_path t) (tabs s)")
    case (Some t)
    with a show ?thesis by (simp add: open_file_def)
  next
    case None
    show ?thesis
    proof (cases "get_file_tab env p")
      case gNone: None
      with None a show ?thesis by (simp add: open_file_def)
    next
      case (Some c)
      let ?t = "Tab (next_ident s) c (Some (parse_path env p))"
      let ?s2 = "s\<lparr>next_ident := Suc (next_ident s), tabs := tabs s @ [?t]\<rparr>"
      from None Some a have "focus_tab ?t ?s2 = Inr s1"
        by (simp add: open_file_def new_tab_def tab_focus_def Let_def)
      from focus_tab_frame [OF this] obtain j L where "s1 = ?s2\<lparr>tab_idx := j, layout := L\<rparr>"
        by blast
      then have "tabs s1 = tabs s @ [?t]" by simp
      then have "find (\<lambda>t. Some (parse_path env p) = tab_path t) (tabs s1) \<noteq> None"
        by (auto simp: find_None_iff)
      then show ?thesis by (auto simp: open_file_def)
    qed
  qed
qed

theorem open_file_same_path_witness:
  "(\<exists>t \<in> set (tabs abc_app). tab_path t = Some (parse_path example_env ''a.ipynb''))
   \<and> open_file example_env ''a.ipynb'' abc_app = Inr abc_app
   \<and> open_file example_env ''a.ipynb'' empty_app = Inr opened_app
   \<and> open_file example_env ''a.ipynb'' opened_app = Inr opened_app"
proof -
  have ex: "\<exists>t \<in> set (tabs abc_app). tab_path t = Some (parse_path example_env ''a.ipynb'')"
    by (simp add: example_defs)
  have first: "open_file example_env ''a.ipynb'' empty_app = Inr opened_app"
    by (simp add: example_defs tab_defs Let_def)
  from open_file_same_path [of abc_app example_env "''a.ipynb''"]
  have "open_file example_env ''a.ipynb'' abc_app = Inr abc_app"
    using ex by blast
  moreover
  from open_file_same_path [of empty_app example_env "''a.ipynb''" opened_app]
  have "open_file example_env ''a.ipynb'' opened_app = Inr opened_app"
    using first by blast
  ultimately show ?thesis
    using ex first by blast
qed

section \<open>Style transformations\<close>

lemma create_merged_style_frame:
  assumes "create_merged_style env s = Inr (st, s')"
  shows "\<exists>pal tr. s' = s\<lparr>color_palette := pal, style_transformation := tr\<rparr>"
  using assms
  by (auto simp: create_merged_style_def Let_def split: sum.splits option.splits if_splits)

text \<open>
  C7. Whenever the merged style is recomputed, the application's style transformation
  is the merge of exactly two conditional transformations, in this order: the forced
  default foreground and background (the \<^verbatim>\<open>fg\<close> and \<^verbatim>\<open>bg\<close> of the base colours), active
  if and only if the colour scheme is not \<^verbatim>\<open>default\<close>, then the swap of light and dark,
  active if and only if the colour scheme is \<^verbatim>\<open>inverse\<close>. With \<^verbatim>\<open>inverse\<close> both are
  active, in that order.
\<close>

theorem create_merged_style_transformations:
  assumes "create_merged_style env s = Inr (st, s')"
  shows "\<exists>fg bg.
           map_of (base_colors env s) ''fg'' = Some fg
         \<and> map_of (base_colors env s) ''bg'' = Some bg
         \<and> style_transformation s' =
             MergedStyleTransformation
               [ConditionalStyleTransformation (SetDefaultColorStyleTransformation fg bg)
                  (color_scheme (config s) \<noteq> ''default''),
                ConditionalStyleTransformation SwapLightAndDarkStyleTransformation
                  (color_scheme (config s) = ''inverse'')]
         \<and> active (style_transformation s') =
             (if color_scheme (config s) = ''default'' then []
              else if color_scheme (config s) = ''inverse''
                   then [SetDefaultColorStyleTransformation fg bg,
                         SwapLightAndDarkStyleTransformation]
                   else [SetDefaultColorStyleTransformation fg bg])"
  using assms
  by (auto simp: create_merged_style_def Let_def split: sum.splits option.splits if_splits)

theorem create_merged_style_transformations_witness:
  "create_merged_style example_env empty_app
     = Inr (example_style, empty_app\<lparr>style_transformation := inverse_transformation,
                                     color_palette := styled_palette\<rparr>)
   \<and> color_scheme (config empty_app) = ''inverse''
   \<and> active inverse_transformation
       = [SetDefaultColorStyleTransformation ''#FFFFFF'' ''#000000'',
          SwapLightAndDarkStyleTransformation]"
proof -
  have h: "create_merged_style example_env empty_app
             = Inr (example_style, empty_app\<lparr>style_transformation := inverse_transformation,
                                             color_palette := styled_palette\<rparr>)"
    by (simp add: style_defs example_defs Let_def)
  from create_merged_style_transformations [OF h] h show ?thesis
    by (simp add: example_defs)
qed

section \<open>Start-up with a closed input\<close>

lemma update_style_frame:
  assumes "update_style env None None s = Inr s'"
  shows "\<exists>pal tr st. s' = s\<lparr>color_palette := pal, style_transformation := tr, renderer_style := st\<rparr>"
proof -
  from assms obtain st s1 where 1: "create_merged_style env s = Inr (st, s1)"
    and 2: "s' = s1\<lparr>renderer_style := st\<rparr>"
    by (auto simp: update_style_def Let_def split: sum.splits)
  from create_merged_style_frame [OF 1] obtain pal tr
    where "s1 = s\<lparr>color_palette := pal, style_transformation := tr\<rparr>" by blast
  with 2 have "s' = s\<lparr>color_palette := pal, style_transformation := tr, renderer_style := st\<rparr>"
    by simp
  then show ?thesis by blast
qed

text \<open>What the post-load step leaves.\<close>

lemma post_load_result:
  assumes "post_load env s = Inr s'"
  shows "\<exists>j L. s' = s\<lparr>tab_idx := j, layout := L,
                     term_info := (if using_vt100 s
                        then (term_info s)\<lparr>background_color_event :=
                                 background_color_event (term_info s) @ [UpdateStyle],
                               foreground_color_event :=
                                 foreground_color_event (term_info s) @ [UpdateStyle]\<rparr>
                        else term_info s),
                     background_tasks := background_tasks s @
                        (if using_vt100 s then [PollTerminalColors] else []),
                     clipboard := (if determine_clipboard env then PyperclipClipboard
                                   else InMemoryClipboard)\<rparr>
            \<and> controls L = controls (layout s) \<and> focusable L = focusable (layout s)
            \<and> (if tabs s = [] then L = layout s \<and> j = tab_idx s
                else 0 \<le> j \<and> j < int (length (tabs s))
                     \<and> current_control L = TabElement (tabs s ! nat j))"
proof -
  let ?s1 = "load_clipboard env s"
  let ?fin = "\<lambda>s4. if using_vt100 s4 then
            s4\<lparr>term_info :=
                      (term_info s4)\<lparr>background_color_event :=
                                         background_color_event (term_info s4) @ [UpdateStyle],
                                       foreground_color_event :=
                                         foreground_color_event (term_info s4) @ [UpdateStyle]\<rparr>,
                    background_tasks := background_tasks s4 @ [PollTerminalColors]\<rparr>
          else s4"
  show ?thesis
  proof (cases "tabs s = []")
    case True
    then have "tab ?s1 = (None, ?s1)"
      by (simp add: tab_def load_clipboard_def)
    with assms have "s' = ?fin ?s1"
      by (simp add: post_load_def Let_def split: if_splits)
    with True show ?thesis
      by (intro exI [of _ "tab_idx s"] exI [of _ "layout s"]) (simp add: load_clipboard_def)
  next
    case False
    then have ne: "tabs ?s1 \<noteq> []" by (simp add: load_clipboard_def)
    define s2 where "s2 = snd (tab ?s1)"
    define t where "t = tabs ?s1 ! nat (tab_idx s2)"
    from ne have t1: "tab ?s1 = (Some t, s2)"
      using tab_fst [of ?s1] by (simp add: prod_eq_iff s2_def t_def)
    have "tab s2 = tab ?s1"
      unfolding s2_def by (rule tab_idempotent)
    with t1 have t2: "tab s2 = (Some t, s2)"
      by simp
    have pl: "post_load env s =
                (case focus_tab t s2 of Inl e \<Rightarrow> Inl e | Inr s4 \<Rightarrow> Inr (?fin s4))"
      by (simp add: post_load_def Let_def tab_focus_def t1 t2 split: sum.splits)
    with assms obtain s4 where f: "focus_tab t s2 = Inr s4" and fin: "s' = ?fin s4"
      by (cases "focus_tab t s2") auto
    from focus_tab_result [OF f] obtain i where
      i: "i < length (tabs s2)" "tabs s2 ! i = t" and
      s4: "s4 = s2\<lparr>tab_idx := int i, layout := (layout s2)\<lparr>current_control := TabElement t\<rparr>\<rparr>"
      by blast
    have fr: "s2 = ?s1\<lparr>tab_idx := tab_idx s2\<rparr>"
      unfolding s2_def by (rule tab_frame)
    have tabs2: "tabs s2 = tabs s"
      using tab_tabs [of ?s1] by (simp add: load_clipboard_def s2_def)
    have lay2: "layout s2 = layout s"
      using arg_cong [OF fr, of layout] by (simp add: load_clipboard_def)
    have "s4 = ?s1\<lparr>tab_idx := tab_idx s2\<rparr>\<lparr>tab_idx := int i,
                 layout := (layout s)\<lparr>current_control := TabElement t\<rparr>\<rparr>"
      using s4 lay2 fr by simp
    then have s4': "s4 = s\<lparr>tab_idx := int i,
                      layout := (layout s)\<lparr>current_control := TabElement t\<rparr>,
                      clipboard := (if determine_clipboard env then PyperclipClipboard
                                   else InMemoryClipboard)\<rparr>"
      by (simp add: load_clipboard_def)
    from i tabs2 have idx: "tabs s ! nat (int i) = t" "int i < int (length (tabs s))" by simp_all
    show ?thesis
      using False fin s4' idx
      by (intro exI [of _ "int i"] exI [of _ "(layout s)\<lparr>current_control := TabElement t\<rparr>"])
         simp
  qed
qed


text \<open>
  C6. With a closed input, \<^verbatim>\<open>pre_run\<close> finishes the start-up within the call. Nothing is
  sent to the terminal: the calls it makes are the new layout, the request for the
  cursor position and the repaint, in this order, and the terminal's colours and colour
  depth are as they were. No task is left waiting for the terminal; the only task that
  can be scheduled is the colour polling of the post-load step, with a vt100 input. The
  renderer is released: the application is marked as running and the future that held
  it back is gone. The layout is the one \<^verbatim>\<open>load_container\<close> built; every configured file
  that has a tab class is open; and the post-load step has run: the clipboard is
  loaded, the current tab, if there is one, has the focus, and with a vt100 input
  \<^verbatim>\<open>update_style\<close> is subscribed to both colour queries.
\<close>

theorem pre_run_closed_input:
  assumes "input_closed s" and "pre_run env s = Inr s'"
  shows "effects s' = effects s @ [NewLayout, RequestAbsoluteCursorPosition, Invalidate]
       \<and> background_tasks s' =
           background_tasks s @ (if using_vt100 s then [PollTerminalColors] else [])
       \<and> colors_value (term_info s') = colors_value (term_info s)
       \<and> depth_of_color_value (term_info s') = depth_of_color_value (term_info s)
       \<and> colors_event (term_info s') = colors_event (term_info s) @ [UpdateStyle]
       \<and> background_color_event (term_info s') =
           background_color_event (term_info s) @ (if using_vt100 s then [UpdateStyle] else [])
       \<and> foreground_color_event (term_info s') =
           foreground_color_event (term_info s) @ (if using_vt100 s then [UpdateStyle] else [])
       \<and> is_running s'
       \<and> waiting_for_cpr_futures s' = waiting_for_cpr_futures s
       \<and> key_bindings_loaded s'
       \<and> clipboard s' =
           (if determine_clipboard env then PyperclipClipboard else InMemoryClipboard)
       \<and> (\<exists>ts. tabs s' = tabs s @ ts)
       \<and> (\<forall>f \<in> set (files (config s)). get_file_tab env f \<noteq> None \<longrightarrow>
             (\<exists>t \<in> set (tabs s'). tab_path t = Some (parse_path env f)))
       \<and> (\<exists>s1. effects s1 = effects s \<and> tabs s1 = tabs s \<and> config s1 = config s
               \<and> \<not> is_running s1
               \<and> waiting_for_cpr_futures s1 = waiting_for_cpr_futures s + 1
               \<and> renderer_style s' = renderer_style s1
               \<and> style_transformation s' = style_transformation s1
               \<and> controls (layout s') = controls (load_container env s1)
               \<and> focusable (layout s') = focusable (load_container env s1)
               \<and> (if tabs s' = []
                   then current_control (layout s') = current_control (load_container env s1)
                   else 0 \<le> tab_idx s' \<and> tab_idx s' < int (length (tabs s'))
                        \<and> current_control (layout s') = TabElement (tabs s' ! nat (tab_idx s'))))"
proof -
  define s0 where "s0 = (load_key_bindings s)\<lparr>app_color_depth :=
                    (case (case color_depth (config (load_key_bindings s)) of
                             None \<Rightarrow> None
                           | Some n \<Rightarrow> COLOR_DEPTHS n) of
                       Some d \<Rightarrow> d
                     | None \<Rightarrow> depth_of_color_value (term_info (load_key_bindings s)))\<rparr>"
  from assms(2) obtain sa where u: "update_style env None None s0 = Inr sa"
    by (auto simp: pre_run_def Let_def s0_def split: sum.splits)
  define s1 where "s1 = sa\<lparr>term_info := (term_info sa)\<lparr>colors_event :=
                             colors_event (term_info sa) @ [UpdateStyle]\<rparr>,
                          is_running := False,
                          waiting_for_cpr_futures := waiting_for_cpr_futures sa + 1\<rparr>"
  from update_style_frame [OF u] obtain pal tr st
    where fa: "sa = s0\<lparr>color_palette := pal, style_transformation := tr, renderer_style := st\<rparr>"
    by blast
  have closed: "input_closed s1"
    using assms(1) by (simp add: s1_def fa s0_def load_key_bindings_def)
  have pr: "pre_run env s = terminal_ready env s1"
    using u closed by (simp add: pre_run_def Let_def s0_def [symmetric] s1_def)
  define s1' where "s1' = s1\<lparr>layout := load_container env s1, effects := effects s1 @ [NewLayout]\<rparr>"
  from assms(2) pr have tr: "terminal_ready env s1 = Inr s'" by simp
  then obtain s2 where o: "open_files env s1' = Inr s2"
    by (auto simp: terminal_ready_def Let_def s1'_def split: sum.splits)
  with tr obtain s3 where p: "post_load env s2 = Inr s3"
    by (auto simp: terminal_ready_def Let_def s1'_def split: sum.splits)
  from tr o p have fin: "s' = s3\<lparr>is_running := True,
                     waiting_for_cpr_futures := waiting_for_cpr_futures s3 - 1,
                     effects := effects s3 @ [RequestAbsoluteCursorPosition, Invalidate]\<rparr>"
    by (auto simp: terminal_ready_def Let_def s1'_def split: if_splits)
  have e1: "effects s1 = effects s" "background_tasks s1 = background_tasks s"
    "term_info s1 = (term_info s)\<lparr>colors_event := colors_event (term_info s) @ [UpdateStyle]\<rparr>"
    "\<not> is_running s1" "waiting_for_cpr_futures s1 = waiting_for_cpr_futures s + 1"
    "tabs s1 = tabs s" "config s1 = config s" "key_bindings_loaded s1"
    "using_vt100 s1 = using_vt100 s"
    by (simp_all add: s1_def fa s0_def load_key_bindings_def)
  from o have oe: "open_each env (files (config s)) s1' = Inr s2"
    by (simp add: open_files_def s1'_def e1)
  from open_each_result [OF oe] obtain ts j n L where
    t2: "tabs s2 = tabs s1' @ ts" and
    f2: "s2 = s1'\<lparr>tabs := tabs s1' @ ts, tab_idx := j, next_ident := n, layout := L\<rparr>" and
    c2: "controls L = controls (layout s1')" "focusable L = focusable (layout s1')" and
    z2: "ts = [] \<longrightarrow> s2 = s1'" and
    op: "\<forall>f \<in> set (files (config s)). get_file_tab env f \<noteq> None \<longrightarrow>
              (\<exists>t \<in> set (tabs s2). tab_path t = Some (parse_path env f))"
    by blast
  from post_load_result [OF p] obtain j3 L3 where
    f3: "s3 = s2\<lparr>tab_idx := j3, layout := L3,
                     term_info := (if using_vt100 s2
                        then (term_info s2)\<lparr>background_color_event :=
                                 background_color_event (term_info s2) @ [UpdateStyle],
                               foreground_color_event :=
                                 foreground_color_event (term_info s2) @ [UpdateStyle]\<rparr>
                        else term_info s2),
                     background_tasks := background_tasks s2 @
                        (if using_vt100 s2 then [PollTerminalColors] else []),
                     clipboard := (if determine_clipboard env then PyperclipClipboard
                                   else InMemoryClipboard)\<rparr>" and
    c3: "controls L3 = controls (layout s2)" "focusable L3 = focusable (layout s2)" and
    i3: "if tabs s2 = [] then L3 = layout s2 \<and> j3 = tab_idx s2
                else 0 \<le> j3 \<and> j3 < int (length (tabs s2))
                     \<and> current_control L3 = TabElement (tabs s2 ! nat j3)"
    by blast
  have e2: "effects s2 = effects s @ [NewLayout]" "background_tasks s2 = background_tasks s"
    "term_info s2 = (term_info s)\<lparr>colors_event := colors_event (term_info s) @ [UpdateStyle]\<rparr>"
    "waiting_for_cpr_futures s2 = waiting_for_cpr_futures s + 1"
    "key_bindings_loaded s2" "using_vt100 s2 = using_vt100 s" "tabs s2 = tabs s @ ts"
    "layout s2 = L" "renderer_style s2 = renderer_style s1"
    "style_transformation s2 = style_transformation s1"
    by (simp_all add: f2 s1'_def e1)
  have l1: "layout s1' = load_container env s1"
    by (simp add: s1'_def)
  have e3: "tabs s' = tabs s2" "layout s' = L3" "tab_idx s' = j3"
    by (simp_all add: fin f3)
  have main: "effects s' = effects s @ [NewLayout, RequestAbsoluteCursorPosition, Invalidate]"
    "background_tasks s' =
           background_tasks s @ (if using_vt100 s then [PollTerminalColors] else [])"
    "colors_value (term_info s') = colors_value (term_info s)"
    "depth_of_color_value (term_info s') = depth_of_color_value (term_info s)"
    "colors_event (term_info s') = colors_event (term_info s) @ [UpdateStyle]"
    "background_color_event (term_info s') =
           background_color_event (term_info s) @ (if using_vt100 s then [UpdateStyle] else [])"
    "foreground_color_event (term_info s') =
           foreground_color_event (term_info s) @ (if using_vt100 s then [UpdateStyle] else [])"
    "is_running s'" "waiting_for_cpr_futures s' = waiting_for_cpr_futures s"
    "key_bindings_loaded s'"
    "clipboard s' =
           (if determine_clipboard env then PyperclipClipboard else InMemoryClipboard)"
    "renderer_style s' = renderer_style s1" "style_transformation s' = style_transformation s1"
    by (simp_all add: fin f3 e2)
  have tabs': "\<exists>ts. tabs s' = tabs s @ ts"
    using e3 e2 by simp
  have opened: "\<forall>f \<in> set (files (config s)). get_file_tab env f \<noteq> None \<longrightarrow>
             (\<exists>t \<in> set (tabs s'). tab_path t = Some (parse_path env f))"
    using op e3 by simp
  have lay: "controls (layout s') = controls (load_container env s1)"
    "focusable (layout s') = focusable (load_container env s1)"
    using c3 c2 e2 e3 l1 by simp_all
  have cur: "if tabs s' = []
                   then current_control (layout s') = current_control (load_container env s1)
                   else 0 \<le> tab_idx s' \<and> tab_idx s' < int (length (tabs s'))
                        \<and> current_control (layout s') = TabElement (tabs s' ! nat (tab_idx s'))"
  proof (cases "tabs s' = []")
    case True
    with e3 e2 have "ts = []" by simp
    with z2 have "s2 = s1'" by simp
    with True e3 i3 l1 show ?thesis by simp
  next
    case False
    with e3 i3 show ?thesis by simp
  qed
  from e1 main lay cur have "effects s1 = effects s \<and> tabs s1 = tabs s \<and> config s1 = config s
               \<and> \<not> is_running s1
               \<and> waiting_for_cpr_futures s1 = waiting_for_cpr_futures s + 1
               \<and> renderer_style s' = renderer_style s1
               \<and> style_transformation s' = style_transformation s1
               \<and> controls (layout s') = controls (load_container env s1)
               \<and> focusable (layout s') = focusable (load_container env s1)
               \<and> (if tabs s' = []
                   then current_control (layout s') = current_control (load_container env s1)
                   else 0 \<le> tab_idx s' \<and> tab_idx s' < int (length (tabs s'))
                        \<and> current_control (layout s') = TabElement (tabs s' ! nat (tab_idx s')))"
    by simp
  then have last: "\<exists>s1. effects s1 = effects s \<and> tabs s1 = tabs s \<and> config s1 = config s
               \<and> \<not> is_running s1
               \<and> waiting_for_cpr_futures s1 = waiting_for_cpr_futures s + 1
               \<and> renderer_style s' = renderer_style s1
               \<and> style_transformation s' = style_transformation s1
               \<and> controls (layout s') = controls (load_container env s1)
               \<and> focusable (layout s') = focusable (load_container env s1)
               \<and> (if tabs s' = []
                   then current_control (layout s') = current_control (load_container env s1)
                   else 0 \<le> tab_idx s' \<and> tab_idx s' < int (length (tabs s'))
                        \<and> current_control (layout s') = TabElement (tabs s' ! nat (tab_idx s')))"
    by (rule exI)
  from main(1-11) tabs' opened last show ?thesis
    by (intro conjI)
qed


theorem pre_run_closed_input_witness:
  "input_closed pipe_app \<and> using_vt100 pipe_app
   \<and> pre_run example_env pipe_app = Inr started_app
   \<and> effects started_app = [NewLayout, RequestAbsoluteCursorPosition, Invalidate]
   \<and> SendAll \<notin> set (effects started_app)
   \<and> background_tasks started_app = [PollTerminalColors]
   \<and> colors_value (term_info started_app) = colors_value (term_info pipe_app)
   \<and> tabs started_app = [tab_a]
   \<and> current_control (layout started_app) = TabElement tab_a
   \<and> is_running started_app
   \<and> waiting_for_cpr_futures started_app = 0"
proof -
  have c: "input_closed pipe_app"
    by (simp add: example_defs)
  have h: "pre_run example_env pipe_app = Inr started_app"
    by (simp add: startup_defs style_defs tab_defs example_defs Let_def)
  from pre_run_closed_input [OF c h] c h show ?thesis
    by (simp add: example_defs)
qed

text \<open>
  The terminal's colours change only when a reply arrives, which also recomputes the
  style for each subscription.
\<close>

lemma fire_term_info:
  "fire env hs s = Inr s' \<Longrightarrow> term_info s' = term_info s"
proof (induction hs arbitrary: s)
  case Nil
  then show ?case by simp
next
  case (Cons h hs)
  from Cons.prems obtain s1 where u: "update_style env None None s = Inr s1"
    and f: "fire env hs s1 = Inr s'"
    by (cases h) (auto split: sum.splits)
  from update_style_frame [OF u] have "term_info s1 = term_info s" by auto
  with Cons.IH [OF f] show ?case by simp
qed

lemma colors_response_value:
  assumes "colors_response env v s = Inr s'"
  shows "colors_value (term_info s') = v"
  using fire_term_info [of env "colors_event (term_info s)"
      "s\<lparr>term_info := (term_info s)\<lparr>colors_value := v\<rparr>\<rparr>" s'] assms
  by (simp add: colors_response_def Let_def)

lemma colors_response_after_start:
  "\<exists>s'. colors_response example_env [(''fg'', ''#000000''), (''bg'', ''#FFFFFF'')] started_app
          = Inr s'
        \<and> colors_value (term_info s') \<noteq> colors_value (term_info started_app)
        \<and> style_transformation s' \<noteq> style_transformation started_app"
  by (simp add: colors_response_def style_defs example_defs Let_def)

text \<open>
  With an open input the start-up is left to a background task: \<^verbatim>\<open>pre_run\<close> returns with
  the renderer still held back.
\<close>

lemma pre_run_interactive_input:
  assumes "\<not> input_closed s" and "pre_run env s = Inr s'"
  shows "\<not> is_running s' \<and> effects s' = effects s
         \<and> background_tasks s' = background_tasks s @ [AwaitTerminalFeedback]
         \<and> waiting_for_cpr_futures s' = waiting_for_cpr_futures s + 1"
proof -
  define s0 where "s0 = (load_key_bindings s)\<lparr>app_color_depth :=
                    (case (case color_depth (config (load_key_bindings s)) of
                             None \<Rightarrow> None
                           | Some n \<Rightarrow> COLOR_DEPTHS n) of
                       Some d \<Rightarrow> d
                     | None \<Rightarrow> depth_of_color_value (term_info (load_key_bindings s)))\<rparr>"
  from assms(2) obtain sa where u: "update_style env None None s0 = Inr sa"
    by (auto simp: pre_run_def Let_def s0_def split: sum.splits)
  from update_style_frame [OF u] obtain pal tr st
    where fa: "sa = s0\<lparr>color_palette := pal, style_transformation := tr, renderer_style := st\<rparr>"
    by blast
  have open_input: "\<not> input_closed sa"
    using assms(1) by (simp add: fa s0_def load_key_bindings_def)
  from assms(2) u open_input
  have "s' = sa\<lparr>term_info := (term_info sa)\<lparr>colors_event :=
                             colors_event (term_info sa) @ [UpdateStyle]\<rparr>,
                 is_running := False,
                 waiting_for_cpr_futures := waiting_for_cpr_futures sa + 1,
                 background_tasks := background_tasks sa @ [AwaitTerminalFeedback]\<rparr>"
    by (simp add: pre_run_def Let_def s0_def [symmetric])
  then show ?thesis
    by (simp add: fa s0_def load_key_bindings_def)
qed



end
